theory Spec2Isabelle
  imports
    Complex_Main
    "HOL-Library.Char_ord"
    "HOL-Library.List_Lexorder"
    "HOL-Library.Product_Lexorder"
begin

section \<open>Python values used by the scheduler\<close>

text \<open>
  Exceptions are values. Every function of the source that can raise returns a sum whose
  left injection carries the exception.
\<close>

datatype py_error =
    TypeError string
  | KeyError string
  | IndexError string
  | ValueError string
  | NameError string
  | OtherError string

text \<open>
  \<^verbatim>\<open>datetime.time\<close>: a naive wall-clock time. Two naive times compare as the tuples
  (hour, minute, second, microsecond) do.
\<close>

record pytime =
  hour :: nat
  minute :: nat
  second :: nat
  microsecond :: nat

definition time_key :: "pytime \<Rightarrow> nat \<times> nat \<times> nat \<times> nat" where
  "time_key t = (hour t, minute t, second t, microsecond t)"

definition time_lt :: "pytime \<Rightarrow> pytime \<Rightarrow> bool" where
  "time_lt a b = (time_key a < time_key b)"

definition mk_time :: "nat \<Rightarrow> nat \<Rightarrow> pytime" where
  "mk_time h m = \<lparr>hour = h, minute = m, second = 0, microsecond = 0\<rparr>"

section \<open>csp/variable.py\<close>

subsection \<open>TimeSlot\<close>

record timeslot =
  day :: string
  start_time :: pytime
  end_time :: pytime

definition overlaps :: "timeslot \<Rightarrow> timeslot \<Rightarrow> bool" where
  "overlaps self other =
     (day self = day other \<and>
      time_lt (start_time self) (end_time other) \<and>
      time_lt (start_time other) (end_time self))"

definition monday_9_10 :: timeslot where
  "monday_9_10 = \<lparr>day = ''Monday'', start_time = mk_time 9 0, end_time = mk_time 10 0\<rparr>"

text \<open>
  The reference definition of the data model: same day, and each slot starts before the
  other one ends.
\<close>

definition spec_overlap :: "timeslot \<Rightarrow> timeslot \<Rightarrow> bool" where
  "spec_overlap a b =
     (day a = day b \<and> time_key (start_time a) < time_key (end_time b)
        \<and> time_key (start_time b) < time_key (end_time a))"

text \<open>
  \<^verbatim>\<open>@dataclass\<close> is applied to TimeSlot without arguments, so \<^verbatim>\<open>eq=True\<close>,
  \<^verbatim>\<open>frozen=False\<close> and \<^verbatim>\<open>unsafe_hash=False\<close>. The generated \<^verbatim>\<open>__eq__\<close> compares
  the tuples of fields. What the decorator does to \<^verbatim>\<open>__hash__\<close> of a class that defines
  none follows the table of the \<^verbatim>\<open>dataclasses\<close> module.
\<close>

definition timeslot_eq :: "timeslot \<Rightarrow> timeslot \<Rightarrow> bool" where
  "timeslot_eq a b =
     ((day a, start_time a, end_time a) = (day b, start_time b, end_time b))"

datatype hash_method = HashNone | HashFields | HashInherited

record dataclass_params =
  dc_eq :: bool
  dc_frozen :: bool
  dc_unsafe_hash :: bool

definition dataclass_hash :: "dataclass_params \<Rightarrow> hash_method" where
  "dataclass_hash p =
     (if dc_unsafe_hash p then HashFields
      else if \<not> dc_eq p then HashInherited
      else if dc_frozen p then HashFields
      else HashNone)"

definition dataclass_default :: dataclass_params where
  "dataclass_default = \<lparr>dc_eq = True, dc_frozen = False, dc_unsafe_hash = False\<rparr>"

definition timeslot_params :: dataclass_params where
  "timeslot_params = dataclass_default"

text \<open>
  \<^verbatim>\<open>hash(ts)\<close> for a TimeSlot; \<open>tuple_hash\<close> is the interpreter's hash of the field
  tuple and \<open>id_hash\<close> the identity hash inherited from \<^verbatim>\<open>object\<close>.
\<close>

definition timeslot_hash ::
  "(string \<times> pytime \<times> pytime \<Rightarrow> int) \<Rightarrow> (timeslot \<Rightarrow> int) \<Rightarrow> timeslot \<Rightarrow> py_error + int" where
  "timeslot_hash tuple_hash id_hash ts =
     (case dataclass_hash timeslot_params of
        HashNone \<Rightarrow> Inl (TypeError ''unhashable type: 'TimeSlot' '')
      | HashFields \<Rightarrow> Inr (tuple_hash (day ts, start_time ts, end_time ts))
      | HashInherited \<Rightarrow> Inr (id_hash ts))"

text \<open>
  \<^verbatim>\<open>s.add(ts)\<close> on a set of TimeSlots: the element is hashed first, and an element
  equal to one already present is not stored again.
\<close>

definition timeslot_set_add ::
  "(string \<times> pytime \<times> pytime \<Rightarrow> int) \<Rightarrow> (timeslot \<Rightarrow> int) \<Rightarrow>
     timeslot list \<Rightarrow> timeslot \<Rightarrow> py_error + timeslot list" where
  "timeslot_set_add tuple_hash id_hash s ts =
     (case timeslot_hash tuple_hash id_hash ts of
        Inl e \<Rightarrow> Inl e
      | Inr h \<Rightarrow> Inr (if list_ex (\<lambda>x. timeslot_eq x ts) s then s else s @ [ts]))"

text \<open>
  The scheduler never looks at the value of a hash, only at whether hashing succeeds, so
  the two hash functions of the interpreter are fixed arbitrarily from here on.
  \<open>hash_slot\<close> is \<^verbatim>\<open>hash(ts)\<close>, \<open>slot_set_add\<close> is \<^verbatim>\<open>s.add(ts)\<close>, and
  \<open>slot_set\<close> is \<^verbatim>\<open>set(xs)\<close>, which adds the elements of \<open>xs\<close> one by one. A tuple
  hashes its components, so \<open>hash_booking\<close> is the hash of a pair (id, slot).
\<close>

definition hash_slot :: "timeslot \<Rightarrow> py_error + int" where
  "hash_slot ts = timeslot_hash (\<lambda>k. 0) (\<lambda>t. 0) ts"

definition slot_set_add :: "timeslot list \<Rightarrow> timeslot \<Rightarrow> py_error + timeslot list" where
  "slot_set_add s ts = timeslot_set_add (\<lambda>k. 0) (\<lambda>t. 0) s ts"

fun slot_set_from :: "timeslot list \<Rightarrow> timeslot list \<Rightarrow> py_error + timeslot list" where
  "slot_set_from s [] = Inr s"
| "slot_set_from s (ts # rest) =
     (case slot_set_add s ts of
        Inl e \<Rightarrow> Inl e
      | Inr s' \<Rightarrow> slot_set_from s' rest)"

definition slot_set :: "timeslot list \<Rightarrow> py_error + timeslot list" where
  "slot_set xs = slot_set_from [] xs"

definition hash_booking :: "string \<times> timeslot \<Rightarrow> py_error + int" where
  "hash_booking p = hash_slot (snd p)"

subsection \<open>ResourceRequirements and Variable\<close>

record resource_requirements =
  room_type :: string
  min_capacity :: int
  requires_lab :: bool
  requires_projector :: bool

text \<open>
  The three assignment fields are \<^verbatim>\<open>Optional\<close>. The three candidate collections are
  kept as lists, in the order in which the interpreter iterates them. Iterating, taking
  the length and testing for emptiness work on any collection; whatever needs a set of
  TimeSlots goes through the hashing of the section above.
\<close>

record variable =
  course_id :: string
  level :: int
  requirements :: resource_requirements
  assigned_time :: "timeslot option"
  assigned_room :: "string option"
  assigned_instructor :: "string option"
  possible_times :: "timeslot list"
  possible_rooms :: "string list"
  possible_instructors :: "string list"

definition Variable :: "string \<Rightarrow> int \<Rightarrow> resource_requirements \<Rightarrow> variable" where
  "Variable cid lvl req =
     \<lparr>course_id = cid, level = lvl, requirements = req,
      assigned_time = None, assigned_room = None, assigned_instructor = None,
      possible_times = [], possible_rooms = [], possible_instructors = []\<rparr>"

text \<open>Truth value of an optional TimeSlot (an instance is always true) and of an optional string.\<close>

definition truthy_slot :: "timeslot option \<Rightarrow> bool" where
  "truthy_slot x = (x \<noteq> None)"

definition truthy_str :: "string option \<Rightarrow> bool" where
  "truthy_str x = (case x of None \<Rightarrow> False | Some s \<Rightarrow> s \<noteq> [])"

definition is_assigned :: "variable \<Rightarrow> bool" where
  "is_assigned self =
     (truthy_slot (assigned_time self) \<and> truthy_str (assigned_room self)
        \<and> truthy_str (assigned_instructor self))"

definition assign :: "variable \<Rightarrow> timeslot \<Rightarrow> string \<Rightarrow> string \<Rightarrow> variable" where
  "assign self time_slot room_id instructor_id =
     self\<lparr>assigned_time := Some time_slot, assigned_room := Some room_id,
          assigned_instructor := Some instructor_id\<rparr>"

definition unassign :: "variable \<Rightarrow> variable" where
  "unassign self =
     self\<lparr>assigned_time := None, assigned_room := None, assigned_instructor := None\<rparr>"

definition set_domain :: "variable \<Rightarrow> timeslot list \<Rightarrow> string list \<Rightarrow> string list \<Rightarrow> variable" where
  "set_domain self time_slots rooms instructors =
     self\<lparr>possible_times := time_slots, possible_rooms := rooms,
          possible_instructors := instructors\<rparr>"

definition get_domain :: "variable \<Rightarrow> timeslot list \<times> string list \<times> string list" where
  "get_domain self = (possible_times self, possible_rooms self, possible_instructors self)"

definition conflicts_with :: "variable \<Rightarrow> variable \<Rightarrow> bool" where
  "conflicts_with self other =
     (if \<not> (is_assigned self \<and> is_assigned other) then False
      else (case (assigned_time self, assigned_time other) of
              (Some a, Some b) \<Rightarrow>
                if overlaps a b
                then (assigned_room self = assigned_room other \<or>
                      assigned_instructor self = assigned_instructor other)
                else False
            | _ \<Rightarrow> False))"

definition lecture_30 :: resource_requirements where
  "lecture_30 = \<lparr>resource_requirements.room_type = ''Lecture'', min_capacity = 30, requires_lab = False,
                 requires_projector = False\<rparr>"

definition clone :: "variable \<Rightarrow> variable" where
  "clone self =
     (Variable (course_id self) (level self) (requirements self))
       \<lparr>assigned_time := assigned_time self, assigned_room := assigned_room self,
        assigned_instructor := assigned_instructor self,
        possible_times := possible_times self, possible_rooms := possible_rooms self,
        possible_instructors := possible_instructors self\<rparr>"

section \<open>csp/domain.py\<close>

text \<open>
  A \<^verbatim>\<open>dict\<close> is an association list with distinct keys, in insertion order.
  \<open>dict_modify\<close> is a write through \<^verbatim>\<open>d[k].field\<close> to the object stored under \<open>k\<close>.
\<close>

fun dict_modify :: "'k \<Rightarrow> ('v \<Rightarrow> 'v) \<Rightarrow> ('k \<times> 'v) list \<Rightarrow> ('k \<times> 'v) list" where
  "dict_modify k f [] = []"
| "dict_modify k f ((k', v) # kvs) =
     (if k' = k then (k', f v) # kvs else (k', v) # dict_modify k f kvs)"

record room_availability =
  room_id :: string
  room_type :: string
  capacity :: int
  available_times :: "timeslot list"
  features :: "(string \<times> bool) list"

record instructor_availability =
  instructor_id :: string
  max_hours_per_day :: int
  preferred_times :: "timeslot list"
  available_times :: "timeslot list"

record domain =
  time_slots :: "timeslot list"
  rooms :: "(string \<times> room_availability) list"
  instructors :: "(string \<times> instructor_availability) list"

definition RoomAvailability :: "string \<Rightarrow> string \<Rightarrow> int \<Rightarrow> room_availability" where
  "RoomAvailability rid rtype cap =
     \<lparr>room_id = rid, room_type = rtype, capacity = cap,
      room_availability.available_times = [], features = []\<rparr>"

definition InstructorAvailability :: "string \<Rightarrow> instructor_availability" where
  "InstructorAvailability iid =
     \<lparr>instructor_id = iid, max_hours_per_day = 6, preferred_times = [],
      instructor_availability.available_times = []\<rparr>"

text \<open>\<^verbatim>\<open>room.features.get(k)\<close> used as a condition: true only for a stored \<^verbatim>\<open>True\<close>.\<close>

definition feature_on :: "room_availability \<Rightarrow> string \<Rightarrow> bool" where
  "feature_on room k = (map_of (features room) k = Some True)"

definition suitable_room :: "resource_requirements \<Rightarrow> room_availability \<Rightarrow> bool" where
  "suitable_room req room =
     (room_availability.room_type room = resource_requirements.room_type req \<and>
      capacity room \<ge> min_capacity req \<and>
      (\<not> requires_lab req \<or> feature_on room ''lab'') \<and>
      (\<not> requires_projector req \<or> feature_on room ''projector''))"

definition get_available_values ::
  "domain \<Rightarrow> resource_requirements \<Rightarrow>
     py_error + timeslot list \<times> string list \<times> string list" where
  "get_available_values self req =
     (case slot_set (time_slots self) of
        Inl e \<Rightarrow> Inl e
      | Inr slots \<Rightarrow>
          (let suitable_rooms =
                 map fst (filter (\<lambda>(rid, room). suitable_room req room) (rooms self));
               qualified_instructors = map fst (instructors self)
           in Inr (slots, suitable_rooms, qualified_instructors)))"

text \<open>
  \<^verbatim>\<open>list.remove(x)\<close> deletes the first element equal to \<open>x\<close> and raises ValueError when
  there is none; the source swallows that ValueError.
\<close>

definition update_availability ::
  "domain \<Rightarrow> timeslot \<Rightarrow> string option \<Rightarrow> string option \<Rightarrow> domain" where
  "update_availability self time_slot room instructor =
     (case room of
        Some rid \<Rightarrow>
          if rid \<noteq> [] \<and> map_of (rooms self) rid \<noteq> None
          then self\<lparr>rooms := dict_modify rid
                   (\<lambda>room. room\<lparr>room_availability.available_times :=
                                   remove1 time_slot (room_availability.available_times room)\<rparr>)
                   (rooms self)\<rparr>
          else self
      | None \<Rightarrow> self)"

definition restore_room :: "timeslot \<Rightarrow> room_availability \<Rightarrow> room_availability" where
  "restore_room time_slot room =
     (if time_slot \<notin> set (room_availability.available_times room)
      then room\<lparr>room_availability.available_times :=
                  room_availability.available_times room @ [time_slot]\<rparr>
      else room)"

definition restore_instructor ::
  "timeslot \<Rightarrow> instructor_availability \<Rightarrow> instructor_availability" where
  "restore_instructor time_slot ins =
     (if time_slot \<notin> set (instructor_availability.available_times ins)
      then ins\<lparr>instructor_availability.available_times :=
                 instructor_availability.available_times ins @ [time_slot]\<rparr>
      else ins)"

definition restore_availability ::
  "domain \<Rightarrow> timeslot \<Rightarrow> string option \<Rightarrow> string option \<Rightarrow> domain" where
  "restore_availability self time_slot room instructor =
     (let self1 =
            (case room of
               Some rid \<Rightarrow>
                 if rid \<noteq> [] \<and> map_of (rooms self) rid \<noteq> None
                 then self\<lparr>rooms := dict_modify rid (restore_room time_slot) (rooms self)\<rparr>
                 else self
             | None \<Rightarrow> self)
      in (case instructor of
            Some iid \<Rightarrow>
              if iid \<noteq> [] \<and> map_of (instructors self1) iid \<noteq> None
              then self1\<lparr>instructors :=
                     dict_modify iid (restore_instructor time_slot) (instructors self1)\<rparr>
              else self1
          | None \<Rightarrow> self1))"

text \<open>The availability a Domain records for a room or an instructor it holds.\<close>

definition room_times :: "domain \<Rightarrow> string \<Rightarrow> timeslot list" where
  "room_times d rid =
     (case map_of (rooms d) rid of
        None \<Rightarrow> [] | Some room \<Rightarrow> room_availability.available_times room)"

definition instructor_times :: "domain \<Rightarrow> string \<Rightarrow> timeslot list" where
  "instructor_times d iid =
     (case map_of (instructors d) iid of
        None \<Rightarrow> [] | Some ins \<Rightarrow> instructor_availability.available_times ins)"

text \<open>One lecture room and one instructor, both free on Monday 09:00 to 10:00.\<close>

definition small_domain :: domain where
  "small_domain =
     \<lparr>time_slots = [monday_9_10],
      rooms = [(''R101'', (RoomAvailability ''R101'' ''Lecture'' 30)
                 \<lparr>room_availability.available_times := [monday_9_10]\<rparr>)],
      instructors = [(''INS1'', (InstructorAvailability ''INS1'')
                 \<lparr>instructor_availability.available_times := [monday_9_10]\<rparr>)]\<rparr>"

section \<open>csp/constraints.py and csp/specific_constraints.py\<close>

text \<open>\<^verbatim>\<open>str(n)\<close> for an integer, as the f-strings of the violation descriptions use it.\<close>

fun str_nat :: "nat \<Rightarrow> string" where
  "str_nat n =
     (if n < 10 then [''0123456789'' ! n]
      else str_nat (n div 10) @ [''0123456789'' ! (n mod 10)])"

definition str_int :: "int \<Rightarrow> string" where
  "str_int i = (if i < 0 then CHR ''-'' # str_nat (nat (- i)) else str_nat (nat i))"

text \<open>A severity is a float in the source; 1.0 and 0.8 are kept as the rationals 1 and 4/5.\<close>

record constraint_violation =
  constraint_type :: string
  description :: string
  variables :: "variable list"
  severity :: rat

subsection \<open>NoOverlapConstraint\<close>

definition resource_overlap :: "variable \<Rightarrow> variable \<Rightarrow> constraint_violation" where
  "resource_overlap var1 var2 =
     \<lparr>constraint_type = ''resource_overlap'',
      description = ''Resource conflict between '' @ course_id var1 @ '' and '' @ course_id var2,
      variables = [var1, var2],
      severity = 1\<rparr>"

fun no_overlap_check :: "variable list \<Rightarrow> constraint_violation list" where
  "no_overlap_check [] = []"
| "no_overlap_check (var1 # rest) =
     map (resource_overlap var1) (filter (conflicts_with var1) rest) @ no_overlap_check rest"

subsection \<open>RoomTypeConstraint\<close>

definition room_type_mismatch :: "variable \<Rightarrow> constraint_violation" where
  "room_type_mismatch var =
     \<lparr>constraint_type = ''room_type_mismatch'',
      description = ''Room type mismatch for '' @ course_id var,
      variables = [var],
      severity = 1\<rparr>"

definition room_type_check_one :: "domain \<Rightarrow> variable \<Rightarrow> constraint_violation list" where
  "room_type_check_one dm var =
     (if is_assigned var \<and> truthy_str (assigned_room var)
      then (case assigned_room var of
              None \<Rightarrow> []
            | Some r \<Rightarrow>
                (case map_of (rooms dm) r of
                   None \<Rightarrow> []
                 | Some room \<Rightarrow>
                     if room_availability.room_type room
                          \<noteq> resource_requirements.room_type (requirements var)
                     then [room_type_mismatch var] else []))
      else [])"

definition room_type_check :: "domain \<Rightarrow> variable list \<Rightarrow> constraint_violation list" where
  "room_type_check dm vars = concat (map (room_type_check_one dm) vars)"

subsection \<open>LevelConstraint\<close>

definition level_time_conflict :: "variable \<Rightarrow> constraint_violation" where
  "level_time_conflict var =
     \<lparr>constraint_type = ''level_time_conflict'',
      description = ''Time conflict in level '' @ str_int (level var),
      variables = [var],
      severity = 1\<rparr>"

text \<open>
  \<open>level_times\<close> is the dict from a level to the set of slots seen so far for it; a level
  without an entry stands for the empty set the source creates on first use. The
  overlap test runs over that set, and then the slot is added to it with \<^verbatim>\<open>add\<close>.
\<close>

fun level_check_loop ::
  "(int \<Rightarrow> timeslot list) \<Rightarrow> variable list \<Rightarrow> py_error + constraint_violation list"
where
  "level_check_loop level_times [] = Inr []"
| "level_check_loop level_times (var # rest) =
     (case assigned_time var of
        None \<Rightarrow> level_check_loop level_times rest
      | Some t \<Rightarrow>
          if is_assigned var
          then (let found = (if list_ex (\<lambda>u. overlaps t u) (level_times (level var))
                             then [level_time_conflict var] else [])
                in case slot_set_add (level_times (level var)) t of
                     Inl e \<Rightarrow> Inl e
                   | Inr seen \<Rightarrow>
                       (case level_check_loop (level_times(level var := seen)) rest of
                          Inl e \<Rightarrow> Inl e
                        | Inr others \<Rightarrow> Inr (found @ others)))
          else level_check_loop level_times rest)"

definition level_check :: "variable list \<Rightarrow> py_error + constraint_violation list" where
  "level_check vars = level_check_loop (\<lambda>l. []) vars"

subsection \<open>LevelRequirementConstraint\<close>

definition MAX_DAILY_HOURS :: int where
  "MAX_DAILY_HOURS = 6"

definition max_hours_exceeded :: "variable \<Rightarrow> string \<Rightarrow> constraint_violation" where
  "max_hours_exceeded var d =
     \<lparr>constraint_type = ''max_hours_exceeded'',
      description = ''Level '' @ str_int (level var) @ '' exceeds '' @ str_int MAX_DAILY_HOURS
                      @ '' hours on '' @ d,
      variables = [var],
      severity = 4 / 5\<rparr>"

text \<open>
  The length of a slot in hours, \<^verbatim>\<open>(end.hour - start.hour) + (end.minute - start.minute) / 60\<close>,
  in exact arithmetic.
\<close>

definition slot_hours :: "timeslot \<Rightarrow> rat" where
  "slot_hours t =
     of_int (int (hour (end_time t)) - int (hour (start_time t)))
     + of_int (int (minute (end_time t)) - int (minute (start_time t))) / 60"

text \<open>
  \<open>level_hours\<close> is the nested dict level, day to hours; a missing entry stands for the 0
  the source stores on first use.
\<close>

fun level_requirement_loop ::
  "(int \<times> string \<Rightarrow> rat) \<Rightarrow> variable list \<Rightarrow> constraint_violation list" where
  "level_requirement_loop level_hours [] = []"
| "level_requirement_loop level_hours (var # rest) =
     (case assigned_time var of
        None \<Rightarrow> level_requirement_loop level_hours rest
      | Some t \<Rightarrow>
          if \<not> is_assigned var then level_requirement_loop level_hours rest
          else
            (let total = level_hours (level var, day t) + slot_hours t
             in (if total > of_int MAX_DAILY_HOURS then [max_hours_exceeded var (day t)] else [])
                @ level_requirement_loop (level_hours((level var, day t) := total)) rest))"

definition level_requirement_check :: "variable list \<Rightarrow> constraint_violation list" where
  "level_requirement_check vars = level_requirement_loop (\<lambda>k. 0) vars"

subsection \<open>ConstraintManager\<close>

text \<open>
  The constraint classes a manager can hold. The manager keeps a reference to the Domain
  it was built with; the model passes that Domain along with the manager.
\<close>

datatype constraint =
    NoOverlapConstraint
  | RoomTypeConstraint
  | LevelConstraint
  | LevelRequirementConstraint

fun check ::
  "constraint \<Rightarrow> variable list \<Rightarrow> domain \<Rightarrow> py_error + constraint_violation list" where
  "check NoOverlapConstraint vars dm = Inr (no_overlap_check vars)"
| "check RoomTypeConstraint vars dm = Inr (room_type_check dm vars)"
| "check LevelConstraint vars dm = level_check vars"
| "check LevelRequirementConstraint vars dm = Inr (level_requirement_check vars)"

text \<open>
  \<^verbatim>\<open>for constraint in cs: violations.extend(constraint.check(variables, domain))\<close>;
  a check that raises ends the loop.
\<close>

fun run_checks ::
  "constraint list \<Rightarrow> variable list \<Rightarrow> domain \<Rightarrow> py_error + constraint_violation list"
where
  "run_checks [] vars dm = Inr []"
| "run_checks (c # cs) vars dm =
     (case check c vars dm of
        Inl e \<Rightarrow> Inl e
      | Inr found \<Rightarrow>
          (case run_checks cs vars dm of
             Inl e \<Rightarrow> Inl e
           | Inr others \<Rightarrow> Inr (found @ others)))"

record constraint_manager =
  hard_constraints :: "constraint list"
  soft_constraints :: "constraint list"

definition ConstraintManager :: constraint_manager where
  "ConstraintManager =
     \<lparr>hard_constraints = [NoOverlapConstraint, RoomTypeConstraint, LevelConstraint],
      soft_constraints = []\<rparr>"

definition check_assignment ::
  "constraint_manager \<Rightarrow> domain \<Rightarrow> variable list \<Rightarrow>
     py_error + constraint_violation list" where
  "check_assignment self dm vars =
     (case run_checks (hard_constraints self) vars dm of
        Inl e \<Rightarrow> Inl e
      | Inr hard \<Rightarrow>
          (case run_checks (soft_constraints self) vars dm of
             Inl e \<Rightarrow> Inl e
           | Inr soft \<Rightarrow> Inr (hard @ soft)))"

text \<open>
  The variables \<^verbatim>\<open>LevelRequirementConstraint.check\<close> counts for a level and a day, and
  the hours it adds up for them.
\<close>

definition counts_for :: "int \<Rightarrow> string \<Rightarrow> variable \<Rightarrow> bool" where
  "counts_for l d var =
     (is_assigned var \<and> level var = l \<and>
      (case assigned_time var of None \<Rightarrow> False | Some t \<Rightarrow> day t = d))"

definition var_hours :: "variable \<Rightarrow> rat" where
  "var_hours var = (case assigned_time var of None \<Rightarrow> 0 | Some t \<Rightarrow> slot_hours t)"

definition counted_hours :: "int \<Rightarrow> string \<Rightarrow> variable list \<Rightarrow> rat" where
  "counted_hours l d vars = sum_list (map var_hours (filter (counts_for l d) vars))"

text \<open>
  The duration of a class is the time from the start of its slot to its end, here in
  hours; the cumulative class duration of a level on a day adds up the durations of the
  assigned variables of that level whose slot lies on that day. A slot is on whole
  minutes when neither its start nor its end has seconds or microseconds.
\<close>

definition time_seconds :: "pytime \<Rightarrow> rat" where
  "time_seconds t =
     of_nat (hour t) * 3600 + of_nat (minute t) * 60 + of_nat (second t)
     + of_nat (microsecond t) / 1000000"

definition class_duration :: "timeslot \<Rightarrow> rat" where
  "class_duration t = (time_seconds (end_time t) - time_seconds (start_time t)) / 3600"

definition var_duration :: "variable \<Rightarrow> rat" where
  "var_duration var = (case assigned_time var of None \<Rightarrow> 0 | Some t \<Rightarrow> class_duration t)"

definition cumulative_duration :: "int \<Rightarrow> string \<Rightarrow> variable list \<Rightarrow> rat" where
  "cumulative_duration l d vars =
     sum_list (map var_duration (filter (counts_for l d) vars))"

definition whole_minutes :: "pytime \<Rightarrow> bool" where
  "whole_minutes t = (second t = 0 \<and> microsecond t = 0)"

definition on_whole_minutes :: "variable \<Rightarrow> bool" where
  "on_whole_minutes var =
     (case assigned_time var of
        None \<Rightarrow> True
      | Some t \<Rightarrow> whole_minutes (start_time t) \<and> whole_minutes (end_time t))"

text \<open>Four two-hour classes of level 1 on one Monday, in four rooms with four instructors.\<close>

definition monday_slot :: "nat \<Rightarrow> nat \<Rightarrow> timeslot" where
  "monday_slot h1 h2 = \<lparr>day = ''Monday'', start_time = mk_time h1 0, end_time = mk_time h2 0\<rparr>"

definition long_monday :: "variable list" where
  "long_monday =
     [assign (Variable ''CSC111'' 1 lecture_30) (monday_slot 8 10) ''R101'' ''INS1'',
      assign (Variable ''CSC112'' 1 lecture_30) (monday_slot 10 12) ''R102'' ''INS2'',
      assign (Variable ''CSC113'' 1 lecture_30) (monday_slot 12 14) ''R103'' ''INS3'',
      assign (Variable ''CSC114'' 1 lecture_30) (monday_slot 14 16) ''R104'' ''INS4'']"

text \<open>
  A class of level 1 on Monday from 08:00:00 to 14:00:30, half a minute longer than six
  hours.
\<close>

definition overlong_class :: variable where
  "overlong_class =
     assign (Variable ''CSC115'' 1 lecture_30)
       \<lparr>day = ''Monday'', start_time = mk_time 8 0,
        end_time = \<lparr>hour = 14, minute = 0, second = 30, microsecond = 0\<rparr>\<rparr>
       ''R101'' ''INS1''"

text \<open>
  A manager whose lists were set by hand: the two hard constraints that hash nothing, and
  the daily cap as a soft constraint.
\<close>

definition lenient_manager :: constraint_manager where
  "lenient_manager =
     \<lparr>hard_constraints = [NoOverlapConstraint, RoomTypeConstraint],
      soft_constraints = [LevelRequirementConstraint]\<rparr>"

text \<open>A list of violations that holds one of type \<^verbatim>\<open>max_hours_exceeded\<close>.\<close>

definition mentions_max_hours :: "constraint_violation list \<Rightarrow> bool" where
  "mentions_max_hours found =
     list_ex (\<lambda>x. constraint_type x = ''max_hours_exceeded'') found"

section \<open>csp/optimization.py\<close>

text \<open>
  Scores are floats in the source. The model computes them in exact rational arithmetic,
  and keeps the two infinities a float can hold as constructors of their own.
\<close>

datatype pyfloat = MinusInf | Finite rat | PlusInf

fun float_gt :: "rat \<Rightarrow> pyfloat \<Rightarrow> bool" where
  "float_gt x MinusInf = True"
| "float_gt x (Finite y) = (x > y)"
| "float_gt x PlusInf = False"

record optimization_metrics =
  gaps_score :: rat
  preference_score :: rat
  distribution_score :: rat
  total_score :: rat

record solution_optimizer =
  max_runtime :: rat
  best_score :: pyfloat
  improvement_threshold :: rat

definition SolutionOptimizer :: "rat \<Rightarrow> solution_optimizer" where
  "SolutionOptimizer mr = \<lparr>max_runtime = mr, best_score = MinusInf, improvement_threshold = 1 / 10\<rparr>"

text \<open>The variables the three sub-scores look at, with their slots.\<close>

definition scored_slot :: "variable \<Rightarrow> timeslot option" where
  "scored_slot var = (if \<not> is_assigned var then None else assigned_time var)"

text \<open>\<^verbatim>\<open>d[k].append(x)\<close> after \<^verbatim>\<open>if k not in d: d[k] = []\<close>.\<close>

fun dict_append :: "'k \<Rightarrow> 'v \<Rightarrow> ('k \<times> 'v list) list \<Rightarrow> ('k \<times> 'v list) list" where
  "dict_append k x [] = [(k, [x])]"
| "dict_append k x ((k', xs) # kvs) =
     (if k' = k then (k', xs @ [x]) # kvs else (k', xs) # dict_append k x kvs)"

fun group_level_slots ::
  "(int \<times> timeslot list) list \<Rightarrow> variable list \<Rightarrow> (int \<times> timeslot list) list" where
  "group_level_slots level_slots [] = level_slots"
| "group_level_slots level_slots (var # rest) =
     (case scored_slot var of
        None \<Rightarrow> group_level_slots level_slots rest
      | Some t \<Rightarrow> group_level_slots (dict_append (level var) t level_slots) rest)"

definition minutes_of :: "pytime \<Rightarrow> int" where
  "minutes_of t = int (hour t) * 60 + int (minute t)"

fun consecutive_gaps :: "timeslot list \<Rightarrow> rat" where
  "consecutive_gaps (current # next_slot # rest) =
     (if day current = day next_slot
      then (let gap = minutes_of (start_time next_slot) - minutes_of (end_time current)
            in if gap > 0 then of_int gap / 60 else 0)
      else 0)
     + consecutive_gaps (next_slot # rest)"
| "consecutive_gaps [x] = 0"
| "consecutive_gaps [] = 0"

definition calculate_gaps_score :: "variable list \<Rightarrow> rat" where
  "calculate_gaps_score vars =
     sum_list (map (\<lambda>(l, level_times).
                 consecutive_gaps (sort_key (\<lambda>x. (day x, time_key (start_time x))) level_times))
               (group_level_slots [] vars))"

definition calculate_preference_score :: "variable list \<Rightarrow> rat" where
  "calculate_preference_score vars =
     (let slots = List.map_filter scored_slot vars;
          total_preferences = length slots;
          satisfied_preferences =
            length (filter (\<lambda>t. 9 \<le> hour (start_time t) \<and> hour (start_time t) \<le> 16) slots)
      in if total_preferences > 0
         then of_nat satisfied_preferences / of_nat total_preferences else 0)"

fun dict_count :: "'k \<Rightarrow> ('k \<times> nat) list \<Rightarrow> ('k \<times> nat) list" where
  "dict_count k [] = [(k, 1)]"
| "dict_count k ((k', n) # kvs) =
     (if k' = k then (k', n + 1) # kvs else (k', n) # dict_count k kvs)"

definition calculate_distribution_score :: "variable list \<Rightarrow> rat" where
  "calculate_distribution_score vars =
     (let day_counts = foldl (\<lambda>d t. dict_count (day t) d) [] (List.map_filter scored_slot vars);
          counts = map (\<lambda>(k, n). (of_nat n :: rat)) day_counts
      in if day_counts = [] then 0
         else (let mean = sum_list counts / of_nat (length day_counts);
                   variance = sum_list (map (\<lambda>c. (c - mean) ^ 2) counts)
                                / of_nat (length day_counts)
               in 1 / (1 + variance)))"

definition score_solution :: "variable list \<Rightarrow> optimization_metrics" where
  "score_solution vars =
     (let g = calculate_gaps_score vars;
          p = calculate_preference_score vars;
          d = calculate_distribution_score vars
      in \<lparr>gaps_score = g, preference_score = p, distribution_score = d,
          total_score = - (2 / 5) * g + (2 / 5) * p + (1 / 5) * d\<rparr>)"

section \<open>csp/solver.py\<close>

record solver_stats =
  runtime :: rat
  backtracks :: nat
  assignments :: nat
  solutions_found :: nat
  stats_best_score :: pyfloat

record solver =
  constraint_manager :: constraint_manager
  solver_domain :: domain
  stats :: solver_stats
  optimizer :: solution_optimizer
  best_solution :: "variable list option"
  best_metrics :: "optimization_metrics option"

definition Solver :: "constraint_manager \<Rightarrow> domain \<Rightarrow> rat \<Rightarrow> solver" where
  "Solver cm dm mr =
     \<lparr>constraint_manager = cm, solver_domain = dm,
      stats = \<lparr>runtime = 0, backtracks = 0, assignments = 0, solutions_found = 0,
               stats_best_score = PlusInf\<rparr>,
      optimizer = SolutionOptimizer mr, best_solution = None, best_metrics = None\<rparr>"

type_synonym triple = "timeslot \<times> string \<times> string"

subsection \<open>\<^verbatim>\<open>_forward_check\<close>\<close>

text \<open>The triples of a variable's domain in the order of the three nested loops.\<close>

definition domain_triples :: "variable \<Rightarrow> triple list" where
  "domain_triples var =
     concat (map (\<lambda>t. concat (map (\<lambda>r. map (\<lambda>i. (t, r, i))
        (possible_instructors var)) (possible_rooms var))) (possible_times var))"

text \<open>
  The loops assign each triple in turn and call \<^verbatim>\<open>check_assignment([variable])\<close>.
  They stop at the first triple for which the result is empty, unassigning the variable;
  a call that raises leaves the variable with the triple just assigned.
\<close>

fun probe :: "solver \<Rightarrow> variable \<Rightarrow> triple list \<Rightarrow> (py_error + bool) \<times> variable" where
  "probe self var [] = (Inr False, var)"
| "probe self var ((t, r, i) # rest) =
     (case check_assignment (constraint_manager self) (solver_domain self)
             [assign var t r i] of
        Inl e \<Rightarrow> (Inl e, assign var t r i)
      | Inr violations \<Rightarrow>
          if violations = [] then (Inr True, unassign (assign var t r i))
          else probe self (assign var t r i) rest)"

fun forward_check ::
  "solver \<Rightarrow> variable list \<Rightarrow> (py_error + bool) \<times> variable list" where
  "forward_check self [] = (Inr True, [])"
| "forward_check self (var # rest) =
     (if \<not> (possible_times var \<noteq> [] \<and> possible_rooms var \<noteq> []
             \<and> possible_instructors var \<noteq> [])
      then (Inr False, var # rest)
      else (case probe self var (domain_triples var) of
              (Inl e, var') \<Rightarrow> (Inl e, var' # rest)
            | (Inr False, var') \<Rightarrow> (Inr False, unassign var' # rest)
            | (Inr True, var') \<Rightarrow>
                (case forward_check self rest of
                   (res, rest') \<Rightarrow> (res, unassign var' # rest'))))"

subsection \<open>\<^verbatim>\<open>_restore_domains\<close> and \<^verbatim>\<open>_order_values\<close>\<close>

text \<open>
  The variables are given their domains again one after the other; when
  \<^verbatim>\<open>get_available_values\<close> raises, the later ones keep what they had.
\<close>

fun restore_domains :: "solver \<Rightarrow> variable list \<Rightarrow> py_error option \<times> variable list" where
  "restore_domains self [] = (None, [])"
| "restore_domains self (var # rest) =
     (case get_available_values (solver_domain self) (requirements var) of
        Inl e \<Rightarrow> (Some e, var # rest)
      | Inr (tms, rms, ins) \<Rightarrow>
          (case restore_domains self rest of
             (err, rest') \<Rightarrow> (err, set_domain var tms rms ins # rest')))"

definition scored_values :: "variable \<Rightarrow> (rat \<times> triple) list" where
  "scored_values var =
     concat (map (\<lambda>t. concat (map (\<lambda>r. map (\<lambda>i.
        (total_score (score_solution [assign var t r i]), (t, r, i)))
        (possible_instructors var)) (possible_rooms var))) (possible_times var))"

text \<open>
  \<^verbatim>\<open>values.sort(reverse=True)\<close> orders the tuples (score, (t, r, i)). Tuples compare
  component by component; two TimeSlots have no order, so comparing two entries of equal
  score and different slots raises TypeError, and every sorting run has to compare two
  such entries when the list holds any. Otherwise entries of equal score share their slot
  and are ordered by room and instructor.
\<close>

definition incomparable :: "(rat \<times> triple) list \<Rightarrow> bool" where
  "incomparable values =
     list_ex (\<lambda>x. list_ex (\<lambda>y. fst x = fst y \<and> fst (snd x) \<noteq> fst (snd y)) values) values"

definition sort_reverse :: "(rat \<times> triple) list \<Rightarrow> py_error + (rat \<times> triple) list" where
  "sort_reverse values =
     (if incomparable values
      then Inl (TypeError ''< not supported between instances of TimeSlot and TimeSlot'')
      else Inr (rev (sort_key (\<lambda>(s, (t, r, i)). (s, r, i)) values)))"

definition order_values :: "variable \<Rightarrow> (py_error + triple list) \<times> variable" where
  "order_values var =
     (let values = scored_values var;
          var' = (if values = [] then var else unassign var)
      in (case sort_reverse values of
            Inl e \<Rightarrow> (Inl e, var')
          | Inr sorted_values \<Rightarrow> (Inr (map snd sorted_values), var')))"

subsection \<open>\<^verbatim>\<open>solve\<close> and its inner \<^verbatim>\<open>backtrack\<close>\<close>

text \<open>
  The state the closure \<^verbatim>\<open>backtrack\<close> works on: the solver object, the list
  \<^verbatim>\<open>variables\<close> whose elements are mutated in place, the list \<^verbatim>\<open>solutions\<close>, and the
  number of readings of \<^verbatim>\<open>time.time()\<close> taken so far. The clock itself is a parameter:
  \<open>clock k\<close> is the value of the \<open>k\<close>-th reading.
\<close>

record search_state =
  this :: solver
  variables :: "variable list"
  solutions :: "variable list list"
  ticks :: nat

record solve_env =
  clock :: "nat \<Rightarrow> rat"
  solve_start :: rat
  timeout :: rat
  max_solutions :: int

definition backtrack_leaf :: "solve_env \<Rightarrow> search_state \<Rightarrow> bool \<times> search_state" where
  "backtrack_leaf env st =
     (let metrics = score_solution (variables st) in
      if (case best_metrics (this st) of
            None \<Rightarrow> True
          | Some best \<Rightarrow> total_score metrics > total_score best)
      then
        (let st' = st\<lparr>this := (this st)\<lparr>best_metrics := Some metrics,
                                           best_solution := Some (map clone (variables st))\<rparr>,
                       solutions := solutions st @ [map clone (variables st)]\<rparr>
         in if int (length (solutions st')) \<ge> max_solutions env
               \<and> float_gt (total_score metrics) (best_score (optimizer (this st')))
            then (True, st')
            else (int (length (solutions st')) < max_solutions env, st'))
      else (int (length (solutions st)) < max_solutions env, st))"

definition count_assignment :: "search_state \<Rightarrow> search_state" where
  "count_assignment st =
     st\<lparr>this := (this st)\<lparr>stats := (stats (this st))
                       \<lparr>assignments := assignments (stats (this st)) + 1\<rparr>\<rparr>\<rparr>"

text \<open>
  The backtracking step: count it, unassign the variable at \<open>index\<close> and restore the
  domains of the variables after it.
\<close>

definition undo :: "nat \<Rightarrow> search_state \<Rightarrow> py_error option \<times> search_state" where
  "undo index st =
     (let st1 = st\<lparr>this := (this st)\<lparr>stats := (stats (this st))
                          \<lparr>backtracks := backtracks (stats (this st)) + 1\<rparr>\<rparr>\<rparr>;
          restored = restore_domains (this st1) (drop (index + 1) (variables st1))
      in (fst restored,
          st1\<lparr>variables := take index (variables st1) @ [unassign (variables st1 ! index)]
                              @ snd restored\<rparr>))"

definition try_assign :: "nat \<Rightarrow> triple \<Rightarrow> search_state \<Rightarrow> search_state" where
  "try_assign index v st =
     (case v of (t, r, i) \<Rightarrow> st\<lparr>variables := (variables st)[index := assign (variables st ! index) t r i]\<rparr>)"

definition look_ahead :: "nat \<Rightarrow> search_state \<Rightarrow> (py_error + bool) \<times> search_state" where
  "look_ahead index st =
     (case forward_check (this st) (drop (index + 1) (variables st)) of
        (res, future) \<Rightarrow> (res, st\<lparr>variables := take (index + 1) (variables st) @ future\<rparr>))"

definition violations_at ::
  "nat \<Rightarrow> search_state \<Rightarrow> py_error + constraint_violation list" where
  "violations_at index st =
     check_assignment (constraint_manager (this st)) (solver_domain (this st))
       (take (index + 1) (variables st))"

text \<open>
  One value of the loop up to the recursive call: count the assignment, assign, check the
  variables up to \<open>index\<close> and, when there is no violation, look ahead. \<open>Inr True\<close>
  says that the recursive call is next, \<open>Inr False\<close> that the backtracking step is.
\<close>

definition attempt :: "nat \<Rightarrow> triple \<Rightarrow> search_state \<Rightarrow> (py_error + bool) \<times> search_state" where
  "attempt index v st =
     (let st1 = try_assign index v (count_assignment st) in
      case violations_at index st1 of
        Inl e \<Rightarrow> (Inl e, st1)
      | Inr violations \<Rightarrow>
          if violations \<noteq> [] then (Inr False, st1) else look_ahead index st1)"

definition tick :: "search_state \<Rightarrow> search_state" where
  "tick st = st\<lparr>ticks := ticks st + 1\<rparr>"

definition put_var :: "nat \<Rightarrow> variable \<Rightarrow> search_state \<Rightarrow> search_state" where
  "put_var index var st = st\<lparr>variables := (variables st)[index := var]\<rparr>"

text \<open>An exception, if there is one, as the outcome of a step that returns nothing.\<close>

definition raised :: "py_error option \<Rightarrow> py_error + bool" where
  "raised x = (case x of Some e \<Rightarrow> Inl e | None \<Rightarrow> Inr False)"

text \<open>
  \<^verbatim>\<open>backtrack(index)\<close> and the loop over the ordered values in its body. A violation,
  a failed forward check and a recursive call that returns false all reach the same
  backtracking step and go on with the next value; a recursive call that returns true
  ends the loop, and so does anything that raises: the attempt, the recursive call or
  the restoring of the domains.
\<close>

function backtrack :: "solve_env \<Rightarrow> nat \<Rightarrow> search_state \<Rightarrow> (py_error + bool) \<times> search_state"
  and try_values ::
    "solve_env \<Rightarrow> nat \<Rightarrow> triple list \<Rightarrow> search_state \<Rightarrow> (py_error + bool) \<times> search_state"
where
  "backtrack env index st0 =
     (let now = clock env (ticks st0); st = tick st0 in
        if now - solve_start env > timeout env then (Inr False, st)
        else if index = length (variables st)
        then (Inr (fst (backtrack_leaf env st)), snd (backtrack_leaf env st))
        else if index > length (variables st)
        then (Inl (IndexError ''list index out of range''), st)
        else (let ov = order_values (variables st ! index);
                  st' = put_var index (snd ov) st
              in case fst ov of
                   Inl e \<Rightarrow> (Inl e, st')
                 | Inr ordered_values \<Rightarrow> try_values env index ordered_values st'))"
| "try_values env index [] st = (Inr False, st)"
| "try_values env index (v # rest) st =
     (if index \<ge> length (variables st)
      then (Inl (IndexError ''list index out of range''), count_assignment st)
      else if isl (fst (attempt index v st)) then attempt index v st
      else
        (let res = (if fst (attempt index v st) = Inr True
                    then backtrack env (index + 1) (snd (attempt index v st))
                    else attempt index v st)
         in if fst res \<noteq> Inr False then res
            else if fst (undo index (snd res)) = None
            then try_values env index rest (snd (undo index (snd res)))
            else (raised (fst (undo index (snd res))), snd (undo index (snd res)))))"
  by pat_completeness auto

lemma forward_check_length: "length (snd (forward_check s vs)) = length vs"
  by (induction vs) (auto split: prod.splits sum.splits bool.splits)

lemma restore_domains_length: "length (snd (restore_domains s vs)) = length vs"
  by (induction vs) (auto split: prod.splits sum.splits)

lemma len_leaf [simp]: "length (variables (snd (backtrack_leaf env st))) = length (variables st)"
  by (simp add: backtrack_leaf_def Let_def split: option.splits)

lemma len_tick [simp]: "length (variables (tick st)) = length (variables st)"
  by (simp add: tick_def)

lemma len_put_var [simp]: "length (variables (put_var i v st)) = length (variables st)"
  by (simp add: put_var_def)

lemma len_count [simp]: "length (variables (count_assignment st)) = length (variables st)"
  by (simp add: count_assignment_def)

lemma len_try_assign [simp]: "length (variables (try_assign i v st)) = length (variables st)"
  by (simp add: try_assign_def split: prod.splits)

lemma len_look_ahead [simp]:
  "length (variables (snd (look_ahead i st))) = length (variables st)"
  using forward_check_length[of "this st" "drop (i + 1) (variables st)"]
  by (auto simp: look_ahead_def split: prod.splits)

lemma len_attempt [simp]:
  "length (variables (snd (attempt i v st))) = length (variables st)"
  by (simp add: attempt_def Let_def split: sum.splits)

lemma len_undo [simp]:
  "i < length (variables st) \<Longrightarrow> length (variables (snd (undo i st))) = length (variables st)"
  by (simp add: undo_def Let_def restore_domains_length)

lemma len_preserved:
  "backtrack_try_values_dom (Inl (env, index, st0)) \<Longrightarrow>
     length (variables (snd (backtrack env index st0))) = length (variables st0)"
  "backtrack_try_values_dom (Inr (env, index, vs, st)) \<Longrightarrow>
     length (variables (snd (try_values env index vs st))) = length (variables st)"
proof (induct env index st0 and env index vs st rule: backtrack_try_values.pinduct)
  case (1 env index st0)
  show ?case
    using "1.hyps"(2)
    by (auto simp: backtrack.psimps[OF "1.hyps"(1)] Let_def split: sum.splits)
next
  case (2 env index st)
  then show ?case by (simp add: try_values.psimps)
next
  case (3 env index v rest st)
  show ?case
  proof (cases "index \<ge> length (variables st)")
    case True
    then show ?thesis by (simp add: try_values.psimps(2)[OF "3.hyps"(1)])
  next
    case False
    then have lt: "index < length (variables st)" by simp
    show ?thesis
      using "3.hyps"(2-) lt
      by (auto simp: try_values.psimps(2)[OF "3.hyps"(1)] Let_def) (metis prod.collapse)+
  qed
qed

termination backtrack
proof (relation "measures [
    (\<lambda>x. case x of Inl (env, index, st) \<Rightarrow> length (variables st) - index
                  | Inr (env, index, vs, st) \<Rightarrow> length (variables st) - index),
    (\<lambda>x. case x of Inl (env, index, st) \<Rightarrow> 1 | Inr (env, index, vs, st) \<Rightarrow> 0),
    (\<lambda>x. case x of Inl (env, index, st) \<Rightarrow> 0 | Inr (env, index, vs, st) \<Rightarrow> length vs)]",
    goal_cases)
  case 1
  then show ?case by simp
next
  case (2 env index st0 now st ov st' ordered)
  then show ?case by simp
next
  case (3 env index v rest st)
  then show ?case by auto
next
  case (4 env index v rest st res)
  then show ?case
    using len_preserved(1)[of env "index + 1" "snd (attempt index v st)"]
    by (auto split: if_splits)
qed

declare backtrack.simps [simp del] try_values.simps [simp del]

text \<open>
  \<^verbatim>\<open>solve\<close> returns the list of solutions; the model returns with it the solver object
  and the variables as the call leaves them.
\<close>

definition solve ::
  "(nat \<Rightarrow> rat) \<Rightarrow> solver \<Rightarrow> variable list \<Rightarrow> int \<Rightarrow> rat \<Rightarrow>
     (py_error + variable list list) \<times> solver \<times> variable list" where
  "solve clk slf vs max_sol tmo =
     (let started = clk 0;
          env = \<lparr>clock = clk, solve_start = started, timeout = tmo, max_solutions = max_sol\<rparr>;
          res = backtrack env 0 \<lparr>this = slf, variables = vs, solutions = [], ticks = 1\<rparr>;
          st = snd res
      in case fst res of
           Inl e \<Rightarrow> (Inl e, this st, variables st)
         | Inr b \<Rightarrow>
             (Inr (solutions st),
              (this st)\<lparr>stats := (stats (this st))\<lparr>runtime := clk (ticks st) - started\<rparr>\<rparr>,
              variables st))"

text \<open>
  A solver over the small Domain, a variable already assigned to the only slot, room and
  instructor, and a second variable of the same level whose domain holds only that triple.
\<close>

definition small_solver :: solver where
  "small_solver = Solver ConstraintManager small_domain 300"

definition taken :: variable where
  "taken = assign (Variable ''CSC111'' 1 lecture_30) monday_9_10 ''R101'' ''INS1''"

definition late_comer :: variable where
  "late_comer =
     set_domain (Variable ''CSC112'' 1 lecture_30) [monday_9_10] [''R101''] [''INS1'']"

text \<open>A variable that comes to the forward check assigned, with empty candidate sets.\<close>

definition held_over :: variable where
  "held_over = assign (Variable ''CSC113'' 1 lecture_30) monday_9_10 ''R101'' ''INS1''"

definition two_wanted :: solve_env where
  "two_wanted = \<lparr>clock = (\<lambda>k. 0), solve_start = 0, timeout = 300, max_solutions = 2\<rparr>"

definition first_leaf :: search_state where
  "first_leaf = \<lparr>this = small_solver, variables = [taken], solutions = [], ticks = 1\<rparr>"

text \<open>The same solver with the manager that has no LevelConstraint.\<close>

definition lenient_solver :: solver where
  "lenient_solver = Solver lenient_manager small_domain 300"

section \<open>generator/scheduler.py\<close>

record scheduling_result =
  sr_success :: bool
  sr_variables :: "variable list option"
  sr_metrics :: "optimization_metrics option"
  sr_error :: "string option"

text \<open>
  The scheduler object: its Domain and the dict \<^verbatim>\<open>scheduled_resources\<close> with the two
  sets of (resource id, slot) pairs under \<^verbatim>\<open>'rooms'\<close> and \<^verbatim>\<open>'instructors'\<close>.
\<close>

record level_scheduler =
  ls_domain :: domain
  scheduled_rooms :: "(string \<times> timeslot) list"
  scheduled_instructors :: "(string \<times> timeslot) list"

definition LevelScheduler :: "domain \<Rightarrow> level_scheduler" where
  "LevelScheduler dm = \<lparr>ls_domain = dm, scheduled_rooms = [], scheduled_instructors = []\<rparr>"

definition reset_resources :: "level_scheduler \<Rightarrow> level_scheduler" where
  "reset_resources sch = sch\<lparr>scheduled_rooms := [], scheduled_instructors := []\<rparr>"

text \<open>\<^verbatim>\<open>sorted\<close> is stable, and so is \<open>sort_key\<close>.\<close>

definition sort_by_constraints :: "variable list \<Rightarrow> variable list" where
  "sort_by_constraints vs =
     sort_key (\<lambda>v. (- int (length (resource_requirements.room_type (requirements v))),
                     - min_capacity (requirements v),
                     - int (length (possible_times v)))) vs"

definition get_level_conflicts :: "level_scheduler \<Rightarrow> int \<Rightarrow> timeslot list" where
  "get_level_conflicts sch lvl = []"

text \<open>
  \<^verbatim>\<open>times - conflicts\<close> is a difference of sets. Its left operand is the set of the
  candidate slots, and a set with these elements exists only if they hash.
\<close>

definition slots_minus :: "timeslot list \<Rightarrow> timeslot list \<Rightarrow> py_error + timeslot list" where
  "slots_minus tms conflicts =
     (case slot_set tms of
        Inl e \<Rightarrow> Inl e
      | Inr s \<Rightarrow> Inr (filter (\<lambda>t. t \<notin> set conflicts) s))"

text \<open>
  The two filters index the Domain's dicts with every candidate id, so an id the Domain
  does not hold raises KeyError.
\<close>

fun filter_available_rooms ::
  "level_scheduler \<Rightarrow> string list \<Rightarrow> resource_requirements \<Rightarrow> py_error + string list" where
  "filter_available_rooms sch [] req = Inr []"
| "filter_available_rooms sch (rm # rest) req =
     (case map_of (rooms (ls_domain sch)) rm of
        None \<Rightarrow> Inl (KeyError rm)
      | Some ra \<Rightarrow>
          (case filter_available_rooms sch rest req of
             Inl e \<Rightarrow> Inl e
           | Inr ok \<Rightarrow>
               Inr (if room_availability.room_type ra = resource_requirements.room_type req
                       \<and> capacity ra \<ge> min_capacity req
                    then rm # ok else ok)))"

fun filter_available_instructors ::
  "level_scheduler \<Rightarrow> string list \<Rightarrow> py_error + string list" where
  "filter_available_instructors sch [] = Inr []"
| "filter_available_instructors sch (i # rest) =
     (case map_of (instructors (ls_domain sch)) i of
        None \<Rightarrow> Inl (KeyError i)
      | Some ia \<Rightarrow>
          (case filter_available_instructors sch rest of
             Inl e \<Rightarrow> Inl e
           | Inr ok \<Rightarrow> Inr (if max_hours_per_day ia > 0 then i # ok else ok)))"

text \<open>
  \<^verbatim>\<open>_is_resource_available\<close> tests \<^verbatim>\<open>(resource_id, time_slot) not in s\<close> and
  \<^verbatim>\<open>_mark_resource_used\<close> adds the pair to \<open>s\<close>; both hash the pair first.
\<close>

definition is_resource_available ::
  "(string \<times> timeslot) list \<Rightarrow> string \<Rightarrow> timeslot \<Rightarrow> py_error + bool" where
  "is_resource_available s resource_id time_slot =
     (case hash_booking (resource_id, time_slot) of
        Inl e \<Rightarrow> Inl e
      | Inr h \<Rightarrow> Inr ((resource_id, time_slot) \<notin> set s))"

definition mark_resource_used ::
  "(string \<times> timeslot) list \<Rightarrow> string \<Rightarrow> timeslot \<Rightarrow> py_error + (string \<times> timeslot) list"
where
  "mark_resource_used s resource_id time_slot =
     (case hash_booking (resource_id, time_slot) of
        Inl e \<Rightarrow> Inl e
      | Inr h \<Rightarrow> Inr (List.insert (resource_id, time_slot) s))"

text \<open>
  The three nested loops of \<^verbatim>\<open>_schedule_variable\<close>, innermost first. Each returns the
  first combination, in loop order, whose room and instructor are both unbooked at the
  slot, or \<open>None\<close> when the loop runs out.
\<close>

fun try_instructors ::
  "level_scheduler \<Rightarrow> timeslot \<Rightarrow> string list \<Rightarrow> py_error + string option" where
  "try_instructors sch t [] = Inr None"
| "try_instructors sch t (i # rest) =
     (case is_resource_available (scheduled_instructors sch) i t of
        Inl e \<Rightarrow> Inl e
      | Inr free \<Rightarrow> if free then Inr (Some i) else try_instructors sch t rest)"

fun try_rooms ::
  "level_scheduler \<Rightarrow> timeslot \<Rightarrow> string list \<Rightarrow> string list \<Rightarrow>
     py_error + (string \<times> string) option" where
  "try_rooms sch t [] ins = Inr None"
| "try_rooms sch t (r # rest) ins =
     (case is_resource_available (scheduled_rooms sch) r t of
        Inl e \<Rightarrow> Inl e
      | Inr free \<Rightarrow>
          if free
          then (case try_instructors sch t ins of
                  Inl e \<Rightarrow> Inl e
                | Inr (Some i) \<Rightarrow> Inr (Some (r, i))
                | Inr None \<Rightarrow> try_rooms sch t rest ins)
          else try_rooms sch t rest ins)"

fun try_times ::
  "level_scheduler \<Rightarrow> timeslot list \<Rightarrow> string list \<Rightarrow> string list \<Rightarrow>
     py_error + triple option" where
  "try_times sch [] rms ins = Inr None"
| "try_times sch (t # rest) rms ins =
     (case try_rooms sch t rms ins of
        Inl e \<Rightarrow> Inl e
      | Inr (Some (r, i)) \<Rightarrow> Inr (Some (t, r, i))
      | Inr None \<Rightarrow> try_times sch rest rms ins)"

definition book :: "level_scheduler \<Rightarrow> triple \<Rightarrow> py_error + level_scheduler" where
  "book sch v =
     (case v of (t, r, i) \<Rightarrow>
        (case mark_resource_used (scheduled_rooms sch) r t of
           Inl e \<Rightarrow> Inl e
         | Inr rs \<Rightarrow>
             (case mark_resource_used (scheduled_instructors sch) i t of
                Inl e \<Rightarrow> Inl e
              | Inr is \<Rightarrow> Inr (sch\<lparr>scheduled_rooms := rs, scheduled_instructors := is\<rparr>))))"

definition schedule_variable ::
  "level_scheduler \<Rightarrow> variable \<Rightarrow> (py_error + bool) \<times> level_scheduler \<times> variable" where
  "schedule_variable sch var =
     (case slots_minus (possible_times var) (get_level_conflicts sch (level var)) of
        Inl e \<Rightarrow> (Inl e, sch, var)
      | Inr free_times \<Rightarrow>
          (case filter_available_rooms sch (possible_rooms var) (requirements var) of
             Inl e \<Rightarrow> (Inl e, sch, var)
           | Inr available_rooms \<Rightarrow>
               (case filter_available_instructors sch (possible_instructors var) of
                  Inl e \<Rightarrow> (Inl e, sch, var)
                | Inr available_instructors \<Rightarrow>
                    (case try_times sch free_times available_rooms
                            available_instructors of
                       Inl e \<Rightarrow> (Inl e, sch, var)
                     | Inr None \<Rightarrow> (Inr False, sch, var)
                     | Inr (Some (t, r, i)) \<Rightarrow>
                         (case book sch (t, r, i) of
                            Inl e \<Rightarrow> (Inl e, sch, assign var t r i)
                          | Inr sch' \<Rightarrow> (Inr True, sch', assign var t r i))))))"

text \<open>The loop over \<^verbatim>\<open>sorted_vars\<close> of one attempt; it stops at the first failure.\<close>

fun schedule_each ::
  "level_scheduler \<Rightarrow> variable list \<Rightarrow> (py_error + bool) \<times> level_scheduler \<times> variable list"
where
  "schedule_each sch [] = (Inr True, sch, [])"
| "schedule_each sch (var # rest) =
     (case schedule_variable sch var of
        (Inl e, sch', var') \<Rightarrow> (Inl e, sch', var' # rest)
      | (Inr False, sch', var') \<Rightarrow> (Inr False, sch', var' # rest)
      | (Inr True, sch', var') \<Rightarrow>
          (case schedule_each sch' rest of
             (res, sch'', rest') \<Rightarrow> (res, sch'', var' # rest')))"

text \<open>
  \<^verbatim>\<open>for attempt in range(max_attempts)\<close>: \<open>Inr (Some vs)\<close> is the successful return
  from inside the loop, \<open>Inr None\<close> the fall through after the last attempt.
\<close>

fun attempts ::
  "nat \<Rightarrow> level_scheduler \<Rightarrow> variable list \<Rightarrow>
     (py_error + variable list option) \<times> level_scheduler \<times> variable list" where
  "attempts 0 sch vs = (Inr None, sch, vs)"
| "attempts (Suc n) sch vs =
     (case schedule_each (reset_resources sch) vs of
        (Inl e, sch', vs') \<Rightarrow> (Inl e, sch', vs')
      | (Inr True, sch', vs') \<Rightarrow> (Inr (Some vs'), sch', vs')
      | (Inr False, sch', vs') \<Rightarrow> attempts n sch' (map unassign vs'))"

text \<open>
  \<open>str_exc\<close> is \<^verbatim>\<open>str(e)\<close> for an exception. The result comes with the scheduler object
  as the call leaves it.
\<close>

definition schedule_level ::
  "(py_error \<Rightarrow> string) \<Rightarrow> level_scheduler \<Rightarrow> int \<Rightarrow> variable list \<Rightarrow> int \<Rightarrow>
     scheduling_result \<times> level_scheduler" where
  "schedule_level str_exc sch lvl vs max_attempts =
     (case attempts (nat max_attempts) sch (sort_by_constraints vs) of
        (Inr (Some sorted_vars), sch', vs') \<Rightarrow>
          (\<lparr>sr_success = True, sr_variables = Some sorted_vars, sr_metrics = None,
            sr_error = None\<rparr>, sch')
      | (Inr None, sch', vs') \<Rightarrow>
          (\<lparr>sr_success = False, sr_variables = None, sr_metrics = None,
            sr_error = Some (''Failed to schedule level '' @ str_int lvl @ '' after ''
                              @ str_int max_attempts @ '' attempts'')\<rparr>, sch')
      | (Inl e, sch', vs') \<Rightarrow>
          (\<lparr>sr_success = False, sr_variables = None, sr_metrics = None,
            sr_error = Some (''Scheduling error: '' @ str_exc e)\<rparr>, sch'))"



section \<open>generator/timetable_generator.py\<close>

text \<open>
  An entry of a level's course list: a course id, or a group of entries
  (\<^verbatim>\<open>CourseGroup\<close>).
\<close>

datatype course_item = CourseId string | CourseGroup "course_item list"

type_synonym levels = "(string \<times> course_item list) list"

text \<open>
  What \<^verbatim>\<open>generate\<close> calls outside the scheduling core, taken as parameters:
  \<^item> \<open>load_levels\<close>: \<^verbatim>\<open>level_parser.load_levels()\<close> raises, or leaves the parsed dict
    in \<^verbatim>\<open>level_parser.levels\<close>;
  \<^item> \<open>validate\<close>: \<^verbatim>\<open>level_parser.validate(raise_errors=False)\<close> raises, or returns
    the list of error strings;
  \<^item> \<open>lookup_course\<close>: the database query of \<^verbatim>\<open>_get_course_requirements\<close> for a
    course id raises, or returns the requirements or \<^verbatim>\<open>None\<close> (the module reads the
    name \<^verbatim>\<open>sqlite3\<close> and does not import it, so the call raises NameError unless the name
    has been bound in the module);
  \<^item> \<open>lookup_group\<close>: the same call for a group, which cannot be bound as a query
    parameter: it raises, or returns \<^verbatim>\<open>None\<close>;
  \<^item> \<open>py_int\<close>, \<open>str_exception\<close>, \<open>repr_list\<close>: the builtins \<^verbatim>\<open>int(s)\<close>,
    \<^verbatim>\<open>str(e)\<close> and the formatting of a list of strings in an f-string.
\<close>

record generator_env =
  load_levels :: "py_error + levels"
  validate :: "levels \<Rightarrow> py_error + string list"
  lookup_course :: "string \<Rightarrow> py_error + resource_requirements option"
  lookup_group :: "course_item list \<Rightarrow> py_error option"
  py_int :: "string \<Rightarrow> py_error + int"
  str_exception :: "py_error \<Rightarrow> string"
  repr_list :: "string list \<Rightarrow> string"

record generator_stats =
  gs_attempts :: int
  gs_total_variables :: int
  gs_total_time :: int

record generator_result =
  gr_success :: bool
  gr_timetable :: "(int \<times> variable list) list option"
  gr_error :: "string option"
  gr_stats :: "generator_stats option"

text \<open>\<^verbatim>\<open>s.split('_')\<close>.\<close>

fun split_on :: "char \<Rightarrow> string \<Rightarrow> string list" where
  "split_on c [] = [[]]"
| "split_on c (x # xs) =
     (if x = c then [] # split_on c xs
      else (case split_on c xs of
              [] \<Rightarrow> [[x]]
            | w # ws \<Rightarrow> (x # w) # ws))"

definition level_number :: "generator_env \<Rightarrow> string \<Rightarrow> py_error + int" where
  "level_number env lvl =
     (case split_on (CHR ''_'') lvl of
        a # b # rest \<Rightarrow> py_int env b
      | _ \<Rightarrow> Inl (IndexError ''list index out of range''))"

fun create_variables ::
  "generator_env \<Rightarrow> domain \<Rightarrow> int \<Rightarrow> course_item list \<Rightarrow> py_error + variable list" where
  "create_variables env dm lvl [] = Inr []"
| "create_variables env dm lvl (CourseId c # rest) =
     (case lookup_course env c of
        Inl e \<Rightarrow> Inl e
      | Inr None \<Rightarrow> create_variables env dm lvl rest
      | Inr (Some req) \<Rightarrow>
          (case get_available_values dm req of
             Inl e \<Rightarrow> Inl e
           | Inr (tms, rms, ins) \<Rightarrow>
               (case create_variables env dm lvl rest of
                  Inl e \<Rightarrow> Inl e
                | Inr vs \<Rightarrow> Inr (set_domain (Variable c lvl req) tms rms ins # vs))))"
| "create_variables env dm lvl (CourseGroup g # rest) =
     (case lookup_group env g of
        Some e \<Rightarrow> Inl e
      | None \<Rightarrow> create_variables env dm lvl rest)"

text \<open>\<^verbatim>\<open>d[k] = v\<close> on a dict.\<close>

fun dict_set :: "'k \<Rightarrow> 'v \<Rightarrow> ('k \<times> 'v) list \<Rightarrow> ('k \<times> 'v) list" where
  "dict_set k v [] = [(k, v)]"
| "dict_set k v ((k', v') # kvs) =
     (if k' = k then (k', v) # kvs else (k', v') # dict_set k v kvs)"

definition level_failure :: "string \<Rightarrow> scheduling_result \<Rightarrow> generator_result" where
  "level_failure lvl result =
     \<lparr>gr_success = False, gr_timetable = None,
      gr_error = Some (''Failed to schedule level '' @ lvl @ '': ''
                        @ (case sr_error result of None \<Rightarrow> ''None'' | Some msg \<Rightarrow> msg)),
      gr_stats = None\<rparr>"

text \<open>
  The loop over \<^verbatim>\<open>level_parser.levels.items()\<close>, with the scheduler object, the
  timetable built so far and the statistics.
\<close>

fun generate_levels ::
  "generator_env \<Rightarrow> domain \<Rightarrow> int \<Rightarrow> level_scheduler \<Rightarrow> levels \<Rightarrow>
     (int \<times> variable list) list \<Rightarrow> generator_stats \<Rightarrow> py_error + generator_result" where
  "generate_levels env dm max_attempts sch [] complete_timetable st =
     Inr \<lparr>gr_success = True, gr_timetable = Some complete_timetable, gr_error = None,
          gr_stats = Some st\<rparr>"
| "generate_levels env dm max_attempts sch ((lvl, courses) # rest) complete_timetable st =
     (case level_number env lvl of
        Inl e \<Rightarrow> Inl e
      | Inr level_num \<Rightarrow>
          (case create_variables env dm level_num courses of
             Inl e \<Rightarrow> Inl e
           | Inr vs \<Rightarrow>
               (let st1 = st\<lparr>gs_total_variables := gs_total_variables st + int (length vs)\<rparr>;
                    res = schedule_level (str_exception env) sch level_num vs max_attempts;
                    result = fst res
                in if \<not> sr_success result then Inr (level_failure lvl result)
                   else generate_levels env dm max_attempts (snd res) rest
                          (dict_set level_num
                             (case sr_variables result of None \<Rightarrow> [] | Some sv \<Rightarrow> sv)
                             complete_timetable)
                          (st1\<lparr>gs_attempts := gs_attempts st1 + max_attempts\<rparr>))))"

text \<open>The body of the \<^verbatim>\<open>try\<close> block of \<^verbatim>\<open>generate\<close>.\<close>

definition generate_body ::
  "generator_env \<Rightarrow> domain \<Rightarrow> level_scheduler \<Rightarrow> int \<Rightarrow> py_error + generator_result" where
  "generate_body env dm sch max_attempts =
     (case load_levels env of
        Inl e \<Rightarrow> Inl e
      | Inr lvls \<Rightarrow>
          (case validate env lvls of
             Inl e \<Rightarrow> Inl e
           | Inr validation_errors \<Rightarrow>
               if validation_errors \<noteq> []
               then Inr \<lparr>gr_success = False, gr_timetable = None,
                         gr_error = Some (''Level validation failed: ''
                                           @ repr_list env validation_errors),
                         gr_stats = None\<rparr>
               else generate_levels env dm max_attempts sch lvls []
                      \<lparr>gs_attempts = 0, gs_total_variables = 0, gs_total_time = 0\<rparr>))"

text \<open>\<^verbatim>\<open>generate\<close>: the body, and the \<^verbatim>\<open>except Exception\<close> clause around it.\<close>

definition generate ::
  "generator_env \<Rightarrow> domain \<Rightarrow> level_scheduler \<Rightarrow> int \<Rightarrow> generator_result" where
  "generate env dm sch max_attempts =
     (case generate_body env dm sch max_attempts of
        Inl e \<Rightarrow>
          \<lparr>gr_success = False, gr_timetable = None,
           gr_error = Some (''Generation failed: '' @ str_exception env e), gr_stats = None\<rparr>
      | Inr r \<Rightarrow> r)"

text \<open>
  \<^verbatim>\<open>str(e)\<close> as the interpreter computes it: the message the exception was raised with,
  for a KeyError the message in quotes.
\<close>

fun error_text :: "py_error \<Rightarrow> string" where
  "error_text (TypeError m) = m"
| "error_text (KeyError m) = [CHR 0x27] @ m @ [CHR 0x27]"
| "error_text (IndexError m) = m"
| "error_text (ValueError m) = m"
| "error_text (NameError m) = m"
| "error_text (OtherError m) = m"

text \<open>
  A Domain with a room and an instructor and no time slot. A catalogue of three levels
  over it: the course of \<^verbatim>\<open>level_1\<close> has no requirements in the store, the course of
  \<^verbatim>\<open>level_2\<close> has, and \<^verbatim>\<open>level_3\<close> comes after them. And the same catalogue behind a
  levels file that cannot be read.
\<close>

definition idle_domain :: domain where
  "idle_domain =
     \<lparr>time_slots = [],
      rooms = [(''R101'', RoomAvailability ''R101'' ''Lecture'' 30)],
      instructors = [(''INS1'', InstructorAvailability ''INS1'')]\<rparr>"

definition three_levels :: levels where
  "three_levels =
     [(''level_1'', [CourseId ''CSC000'']),
      (''level_2'', [CourseId ''CSC111'']),
      (''level_3'', [CourseId ''CSC211''])]"

definition quiet_env :: generator_env where
  "quiet_env =
     \<lparr>load_levels = Inr three_levels,
      validate = (\<lambda>l. Inr []),
      lookup_course = (\<lambda>c. if c = ''CSC000'' then Inr None else Inr (Some lecture_30)),
      lookup_group = (\<lambda>g. None),
      py_int = (\<lambda>s. if s = ''1'' then Inr 1 else if s = ''2'' then Inr 2
                      else if s = ''3'' then Inr 3
                      else Inl (ValueError (''invalid literal for int() with base 10: '' @ s))),
      str_exception = error_text,
      repr_list = concat\<rparr>"

definition broken_env :: generator_env where
  "broken_env = quiet_env\<lparr>load_levels := Inl (OtherError ''Format error: Invalid JSON format'')\<rparr>"

text \<open>
  More catalogues and stores: one whose second level has no number in its name, a
  validator that raises, a validator that reports an error, and a store module in which
  \<^verbatim>\<open>sqlite3\<close> is unbound.
\<close>

definition misnamed_env :: generator_env where
  "misnamed_env =
     quiet_env\<lparr>load_levels :=
       Inr [(''level_1'', [CourseId ''CSC000'']),
            (''level_x'', [CourseId ''CSC111'']),
            (''level_3'', [CourseId ''CSC211''])]\<rparr>"

definition unchecked_env :: generator_env where
  "unchecked_env =
     quiet_env\<lparr>validate :=
       (\<lambda>l. Inl (OtherError ''LevelParser object has no attribute _flatten_courses''))\<rparr>"

definition rejecting_env :: generator_env where
  "rejecting_env =
     quiet_env\<lparr>validate := (\<lambda>l. Inr [''Duplicate courses found in level level_1''])\<rparr>"

definition unbound_env :: generator_env where
  "unbound_env =
     quiet_env\<lparr>lookup_course := (\<lambda>c. Inl (NameError ''name 'sqlite3' is not defined''))\<rparr>"

text \<open>\<^verbatim>\<open>GeneratorResult(success=False, error=msg)\<close>.\<close>

definition failed_generation :: "string \<Rightarrow> generator_result" where
  "failed_generation msg =
     \<lparr>gr_success = False, gr_timetable = None, gr_error = Some msg, gr_stats = None\<rparr>"

text \<open>
  A level of the catalogue is scheduled when its name yields a number, its variables are
  created and \<^verbatim>\<open>schedule_level\<close> succeeds on them. The loop of \<^verbatim>\<open>generate\<close> reaches an
  entry of the catalogue when the catalogue was loaded and validated without errors and
  every level before the entry is scheduled.
\<close>

definition level_scheduled ::
  "generator_env \<Rightarrow> domain \<Rightarrow> level_scheduler \<Rightarrow> int \<Rightarrow> string \<times> course_item list \<Rightarrow> bool"
where
  "level_scheduled env dm sch max_attempts entry =
     (case level_number env (fst entry) of
        Inl e \<Rightarrow> False
      | Inr n \<Rightarrow>
          (case create_variables env dm n (snd entry) of
             Inl e \<Rightarrow> False
           | Inr vs \<Rightarrow>
               sr_success (fst (schedule_level (str_exception env) sch n vs max_attempts))))"

definition reaches ::
  "generator_env \<Rightarrow> domain \<Rightarrow> level_scheduler \<Rightarrow> int \<Rightarrow> levels \<Rightarrow>
     string \<times> course_item list \<Rightarrow> levels \<Rightarrow> bool" where
  "reaches env dm sch max_attempts pre entry rest =
     (load_levels env = Inr (pre @ entry # rest)
      \<and> validate env (pre @ entry # rest) = Inr []
      \<and> list_all (level_scheduled env dm sch max_attempts) pre)"

section \<open>Properties of TimeSlot and Variable\<close>

lemma time_lt_irrefl: "\<not> time_lt a a"
  by (simp add: time_lt_def)

text \<open>
  C9. \<^verbatim>\<open>TimeSlot.overlaps\<close> always returns a truth value, and that value is the one of
  the reference definition: same day, \<open>a.start < b.end\<close> and \<open>b.start < a.end\<close>. Hence it
  is symmetric, and a slot whose start lies before its end overlaps itself.
\<close>

theorem overlaps_reference_symmetric_reflexive:
  "overlaps a b = spec_overlap a b
   \<and> overlaps a b = overlaps b a
   \<and> (time_lt (start_time a) (end_time a) \<longrightarrow> overlaps a a)"
  by (auto simp: overlaps_def spec_overlap_def time_lt_def)

theorem overlaps_reference_symmetric_reflexive_witness:
  "time_lt (start_time monday_9_10) (end_time monday_9_10) \<and> overlaps monday_9_10 monday_9_10"
proof -
  have h: "time_lt (start_time monday_9_10) (end_time monday_9_10)"
    by (simp add: monday_9_10_def time_lt_def time_key_def mk_time_def)
  from overlaps_reference_symmetric_reflexive [of monday_9_10 monday_9_10] h
  show ?thesis by blast
qed

text \<open>
  C10. Whether a Variable counts as assigned is decided by the truth value of the three
  assignment fields. After \<^verbatim>\<open>assign(t, r, i)\<close> with an empty \<open>r\<close> or an empty \<open>i\<close> all
  three fields are set, \<^verbatim>\<open>is_assigned\<close> is false, and \<^verbatim>\<open>conflicts_with\<close> is false
  against every other variable, in either direction.
\<close>

theorem empty_id_assignment_counts_as_unassigned:
  assumes "r = [] \<or> i = []"
  shows "assigned_time (assign v t r i) = Some t
         \<and> assigned_room (assign v t r i) = Some r
         \<and> assigned_instructor (assign v t r i) = Some i
         \<and> \<not> is_assigned (assign v t r i)
         \<and> \<not> conflicts_with (assign v t r i) other
         \<and> \<not> conflicts_with other (assign v t r i)"
  using assms
  by (auto simp: assign_def is_assigned_def truthy_str_def conflicts_with_def)

theorem empty_id_assignment_counts_as_unassigned_witness:
  "\<not> is_assigned (assign (Variable ''CSC111'' 1 lecture_30)
        monday_9_10 [] ''INS1'')
   \<and> \<not> conflicts_with
        (assign (Variable ''CSC111'' 1 lecture_30)
           monday_9_10 [] ''INS1'')
        (assign (Variable ''CSC112'' 1 lecture_30)
           monday_9_10 ''R101'' ''INS1'')"
  using empty_id_assignment_counts_as_unassigned
    [of "[]" "''INS1''" "Variable ''CSC111'' 1 lecture_30"
        monday_9_10
        "assign (Variable ''CSC112'' 1 lecture_30)
           monday_9_10 ''R101'' ''INS1''"]
  by simp

text \<open>
  C1. Equality of TimeSlots is structural over (day, start, end). Hashing is not: the
  class is an unfrozen dataclass with generated equality, so its \<^verbatim>\<open>__hash__\<close> is
  \<^verbatim>\<open>None\<close>; hashing the Monday 09:00 to 10:00 slot raises TypeError, and so does adding it
  to an empty set.
\<close>

theorem timeslot_unhashable:
  "timeslot_eq a b = (a = b)
   \<and> timeslot_hash tuple_hash id_hash monday_9_10
      = Inl (TypeError ''unhashable type: 'TimeSlot' '')
   \<and> timeslot_set_add tuple_hash id_hash [] monday_9_10
      = Inl (TypeError ''unhashable type: 'TimeSlot' '')"
  by (auto simp: timeslot_eq_def timeslot_hash_def timeslot_set_add_def dataclass_hash_def
      timeslot_params_def dataclass_default_def)

text \<open>
  C6. \<^verbatim>\<open>update_availability\<close> takes the slot out of the named room's list only. In a
  Domain whose room R101 and instructor INS1 are both free on Monday 09:00 to 10:00,
  \<^verbatim>\<open>update_availability(slot, "R101", "INS1")\<close> empties the room's list and leaves the
  slot in the instructor's list; \<^verbatim>\<open>restore_availability\<close> on the same arguments does
  write to both.
\<close>

theorem update_availability_skips_instructor:
  "room_times (update_availability small_domain monday_9_10 (Some ''R101'') (Some ''INS1''))
      ''R101'' = []
   \<and> instructor_times
        (update_availability small_domain monday_9_10 (Some ''R101'') (Some ''INS1''))
        ''INS1'' = [monday_9_10]
   \<and> monday_9_10 \<in> set (instructor_times
        (update_availability small_domain monday_9_10 (Some ''R101'') (Some ''INS1''))
        ''INS1'')"
  by (simp add: update_availability_def small_domain_def room_times_def instructor_times_def
      RoomAvailability_def InstructorAvailability_def)

section \<open>Sets of TimeSlots\<close>

text \<open>
  Whatever builds a set of TimeSlots raises: adding a slot, hashing one, and converting a
  list that is not empty.
\<close>

lemma slot_set_add_raises:
  "slot_set_add s ts = Inl (TypeError ''unhashable type: 'TimeSlot' '')"
  by (simp add: slot_set_add_def timeslot_set_add_def timeslot_hash_def dataclass_hash_def
      timeslot_params_def dataclass_default_def)

lemma hash_slot_raises:
  "hash_slot ts = Inl (TypeError ''unhashable type: 'TimeSlot' '')"
  by (simp add: hash_slot_def timeslot_hash_def dataclass_hash_def
      timeslot_params_def dataclass_default_def)


lemma level_check_assigned:
  "is_assigned var \<Longrightarrow>
     level_check_loop lt (var # rest) = Inl (TypeError ''unhashable type: 'TimeSlot' '')"
  by (auto simp: slot_set_add_raises is_assigned_def truthy_slot_def Let_def
      split: option.splits)


section \<open>The daily hours cap\<close>

lemma lr_loop_step:
  assumes "assigned_time v = Some t" "is_assigned v"
  shows "level_requirement_loop acc (v # rest) =
           (if acc (level v, day t) + slot_hours t > of_int MAX_DAILY_HOURS
            then [max_hours_exceeded v (day t)] else [])
           @ level_requirement_loop
               (acc((level v, day t) := acc (level v, day t) + slot_hours t)) rest"
  using assms by (simp add: Let_def)

lemma lr_loop_skip:
  assumes "assigned_time v = None \<or> \<not> is_assigned v"
  shows "level_requirement_loop acc (v # rest) = level_requirement_loop acc rest"
  using assms by (auto split: option.splits)

lemma lr_loop_last:
  assumes "\<exists>v\<in>set vars. counts_for l d v"
      and "acc (l, d) + counted_hours l d vars > of_int MAX_DAILY_HOURS"
  shows "\<exists>x\<in>set (level_requirement_loop acc vars). \<exists>v\<in>set vars.
           counts_for l d v \<and> x = max_hours_exceeded v d"
  using assms
proof (induction vars arbitrary: acc)
  case Nil
  then show ?case by simp
next
  case (Cons v rest)
  show ?case
  proof (cases "counts_for l d v")
    case True
    then obtain t where t: "assigned_time v = Some t" "day t = d" "is_assigned v" "level v = l"
      by (auto simp: counts_for_def split: option.splits)
    let ?tot = "acc (l, d) + slot_hours t"
    let ?acc' = "acc((l, d) := ?tot)"
    have step: "level_requirement_loop acc (v # rest) =
           (if ?tot > of_int MAX_DAILY_HOURS then [max_hours_exceeded v d] else [])
           @ level_requirement_loop ?acc' rest"
      using lr_loop_step[OF t(1) t(3), of acc rest] t by simp
    show ?thesis
    proof (cases "\<exists>w\<in>set rest. counts_for l d w")
      case ex: True
      have "?acc' (l, d) + counted_hours l d rest > of_int MAX_DAILY_HOURS"
        using Cons.prems(2) t True
        by (simp add: counted_hours_def var_hours_def add.assoc)
      from Cons.IH[of ?acc', OF ex this] obtain x w where
        "x \<in> set (level_requirement_loop ?acc' rest)" "w \<in> set rest"
        "counts_for l d w" "x = max_hours_exceeded w d" by blast
      then show ?thesis unfolding step by auto
    next
      case False
      then have "filter (counts_for l d) rest = []" by (simp add: filter_empty_conv)
      then have "?tot > of_int MAX_DAILY_HOURS"
        using Cons.prems(2) t True
        by (simp add: counted_hours_def var_hours_def)
      then show ?thesis unfolding step using True by auto
    qed
  next
    case False
    then have ex: "\<exists>w\<in>set rest. counts_for l d w" using Cons.prems(1) by auto
    have cum: "counted_hours l d (v # rest) = counted_hours l d rest"
      using False by (simp add: counted_hours_def)
    show ?thesis
    proof (cases "assigned_time v = None \<or> \<not> is_assigned v")
      case True
      from Cons.IH[of acc, OF ex] Cons.prems(2) cum obtain x w where
        "x \<in> set (level_requirement_loop acc rest)" "w \<in> set rest"
        "counts_for l d w" "x = max_hours_exceeded w d" by auto
      then show ?thesis unfolding lr_loop_skip[OF True] by auto
    next
      case F2: False
      then obtain t where t: "assigned_time v = Some t" "is_assigned v" by auto
      then have ne: "(level v, day t) \<noteq> (l, d)"
        using False by (auto simp: counts_for_def)
      let ?acc' = "acc((level v, day t) := acc (level v, day t) + slot_hours t)"
      have "?acc' (l, d) = acc (l, d)" using ne by auto
      then have "?acc' (l, d) + counted_hours l d rest > of_int MAX_DAILY_HOURS"
        using Cons.prems(2) cum by simp
      from Cons.IH[of ?acc', OF ex this] obtain x w where
        "x \<in> set (level_requirement_loop ?acc' rest)" "w \<in> set rest"
        "counts_for l d w" "x = max_hours_exceeded w d" by blast
      then show ?thesis unfolding lr_loop_step[OF t] by auto
    qed
  qed
qed

lemma counted_pos_ex:
  assumes "counted_hours l d vars > of_int MAX_DAILY_HOURS"
  shows "\<exists>v\<in>set vars. counts_for l d v"
proof (rule ccontr)
  assume "\<not> ?thesis"
  then have "filter (counts_for l d) vars = []" by (simp add: filter_empty_conv)
  then show False using assms by (simp add: counted_hours_def MAX_DAILY_HOURS_def)
qed

lemma whole_minute_duration:
  assumes "whole_minutes (start_time t)" "whole_minutes (end_time t)"
  shows "class_duration t = slot_hours t"
  using assms
  by (simp add: class_duration_def slot_hours_def time_seconds_def whole_minutes_def
      field_simps)

lemma whole_minute_var: "on_whole_minutes v \<Longrightarrow> var_duration v = var_hours v"
  by (auto simp: on_whole_minutes_def var_duration_def var_hours_def whole_minute_duration
      split: option.splits)

lemma whole_minute_cumulative:
  "list_all on_whole_minutes vars \<Longrightarrow> cumulative_duration l d vars = counted_hours l d vars"
  by (induction vars) (auto simp: cumulative_duration_def counted_hours_def whole_minute_var)

lemma no_overlap_types:
  "x \<in> set (no_overlap_check vars) \<Longrightarrow> constraint_type x = ''resource_overlap''"
  by (induction vars) (auto simp: resource_overlap_def)

lemma room_type_types:
  "x \<in> set (room_type_check dm vars) \<Longrightarrow> constraint_type x = ''room_type_mismatch''"
  by (auto simp: room_type_check_def room_type_check_one_def room_type_mismatch_def
      split: if_splits option.splits)

lemma level_check_types:
  "level_check_loop lt vars = Inr xs \<Longrightarrow> x \<in> set xs \<Longrightarrow>
     constraint_type x = ''level_time_conflict''"
  by (induction vars arbitrary: lt xs)
     (auto simp: Let_def level_time_conflict_def split: option.splits if_splits sum.splits)

lemma default_manager_types:
  assumes "check_assignment ConstraintManager dm vars = Inr found" "x \<in> set found"
  shows "constraint_type x \<noteq> ''max_hours_exceeded''"
proof -
  from assms(1) obtain lv where lv: "level_check_loop (\<lambda>l. []) vars = Inr lv"
    and f: "found = no_overlap_check vars @ room_type_check dm vars @ lv"
    by (auto simp: check_assignment_def ConstraintManager_def level_check_def
        split: sum.splits)
  from assms(2) f consider "x \<in> set (no_overlap_check vars)"
    | "x \<in> set (room_type_check dm vars)" | "x \<in> set lv" by auto
  then show ?thesis
  proof cases
    case 1
    then show ?thesis using no_overlap_types[OF 1] by simp
  next
    case 2
    then show ?thesis using room_type_types[OF 2] by simp
  next
    case 3
    then show ?thesis using level_check_types[OF lv 3] by simp
  qed
qed

lemma run_checks_member:
  "run_checks cs vars dm = Inr found \<Longrightarrow> c \<in> set cs \<Longrightarrow> check c vars dm = Inr ys \<Longrightarrow>
     set ys \<subseteq> set found"
  by (induction cs arbitrary: found) (auto split: sum.splits)

lemma run_checks_soft_only:
  "run_checks cs vars dm = Inr found \<Longrightarrow> LevelRequirementConstraint \<in> set cs \<Longrightarrow>
     set (level_requirement_check vars) \<subseteq> set found"
  using run_checks_member[of cs vars dm found LevelRequirementConstraint
      "level_requirement_check vars"]
  by simp

lemma cap_reported:
  assumes "list_all on_whole_minutes vars"
      and "cumulative_duration l d vars > of_int MAX_DAILY_HOURS"
  shows "\<exists>v. v \<in> set vars \<and> counts_for l d v
           \<and> max_hours_exceeded v d \<in> set (level_requirement_check vars)"
proof -
  have c: "counted_hours l d vars > of_int MAX_DAILY_HOURS"
    using assms whole_minute_cumulative[of vars l d] by simp
  from counted_pos_ex[OF c] have ex: "\<exists>v\<in>set vars. counts_for l d v" .
  have "(\<lambda>k. 0 :: rat) (l, d) + counted_hours l d vars > of_int MAX_DAILY_HOURS"
    using c by simp
  from lr_loop_last[of vars l d "\<lambda>k. 0", OF ex this]
  show ?thesis by (auto simp: level_requirement_check_def)
qed

lemma check_assignment_parts:
  "check_assignment cm dm vars = Inr found \<Longrightarrow>
     \<exists>hard soft. run_checks (hard_constraints cm) vars dm = Inr hard
        \<and> run_checks (soft_constraints cm) vars dm = Inr soft \<and> found = hard @ soft"
  by (auto simp: check_assignment_def split: sum.splits)

lemma level_check_long_monday:
  "level_check long_monday = Inl (TypeError ''unhashable type: 'TimeSlot' '')"
  by (simp add: level_check_def long_monday_def slot_set_add_raises assign_def
      is_assigned_def truthy_slot_def truthy_str_def)

lemma no_overlap_long_monday: "no_overlap_check long_monday = []"
  by (simp add: long_monday_def conflicts_with_def assign_def Variable_def is_assigned_def
      truthy_slot_def truthy_str_def overlaps_def monday_slot_def mk_time_def time_lt_def
      time_key_def)

lemma room_type_long_monday: "room_type_check small_domain long_monday = []"
  by (simp add: long_monday_def room_type_check_def room_type_check_one_def assign_def
      Variable_def is_assigned_def truthy_slot_def truthy_str_def small_domain_def
      RoomAvailability_def lecture_30_def)

lemma level_requirement_long_monday:
  "level_requirement_check long_monday
     = [max_hours_exceeded
          (assign (Variable ''CSC114'' 1 lecture_30) (monday_slot 14 16) ''R104'' ''INS4'')
          ''Monday'']"
  by (simp add: level_requirement_check_def long_monday_def assign_def Variable_def
      is_assigned_def truthy_slot_def truthy_str_def monday_slot_def mk_time_def
      slot_hours_def MAX_DAILY_HOURS_def Let_def)

lemma cumulative_long_monday: "cumulative_duration 1 ''Monday'' long_monday = 8"
  by (simp add: cumulative_duration_def counts_for_def var_duration_def class_duration_def
      time_seconds_def long_monday_def assign_def Variable_def is_assigned_def truthy_slot_def
      truthy_str_def monday_slot_def mk_time_def)

text \<open>
  C5, as stated, fails. The four classes of \<open>long_monday\<close> are assigned and give level 1
  eight hours on Monday. On them \<^verbatim>\<open>check_assignment\<close> of a freshly constructed manager
  returns no list: of its three hard constraints the first two find nothing and
  LevelConstraint raises TypeError when it adds the first slot to a set; it has no soft
  constraint, although LevelRequirementConstraint, checked by itself, reports the excess.
  And the hours the constraint adds up are not the duration: for the class from 08:00:00
  to 14:00:30 it counts six hours and reports nothing.
\<close>

theorem fresh_manager_misses_max_hours:
  "list_all is_assigned long_monday
   \<and> cumulative_duration 1 ''Monday'' long_monday = 8
   \<and> check_assignment ConstraintManager small_domain long_monday
       = Inl (TypeError ''unhashable type: 'TimeSlot' '')
   \<and> check NoOverlapConstraint long_monday small_domain = Inr []
   \<and> check RoomTypeConstraint long_monday small_domain = Inr []
   \<and> check LevelConstraint long_monday small_domain
       = Inl (TypeError ''unhashable type: 'TimeSlot' '')
   \<and> soft_constraints ConstraintManager = []
   \<and> mentions_max_hours (level_requirement_check long_monday)
   \<and> is_assigned overlong_class
   \<and> cumulative_duration 1 ''Monday'' [overlong_class] > of_int MAX_DAILY_HOURS
   \<and> level_requirement_check [overlong_class] = []"
proof -
  have a: "list_all is_assigned long_monday"
    by (simp add: long_monday_def assign_def is_assigned_def truthy_slot_def truthy_str_def)
  have b: "check_assignment ConstraintManager small_domain long_monday
             = Inl (TypeError ''unhashable type: 'TimeSlot' '')"
    by (simp add: check_assignment_def ConstraintManager_def level_check_long_monday)
  have c: "mentions_max_hours (level_requirement_check long_monday)"
    by (simp add: level_requirement_long_monday mentions_max_hours_def max_hours_exceeded_def)
  have d: "is_assigned overlong_class"
    by (simp add: overlong_class_def assign_def is_assigned_def truthy_slot_def truthy_str_def)
  have e: "cumulative_duration 1 ''Monday'' [overlong_class] > of_int MAX_DAILY_HOURS"
    by (simp add: cumulative_duration_def counts_for_def var_duration_def class_duration_def
        time_seconds_def overlong_class_def assign_def Variable_def is_assigned_def
        truthy_slot_def truthy_str_def mk_time_def MAX_DAILY_HOURS_def)
  have f: "level_requirement_check [overlong_class] = []"
    by (simp add: level_requirement_check_def overlong_class_def assign_def Variable_def
        is_assigned_def truthy_slot_def truthy_str_def mk_time_def slot_hours_def
        MAX_DAILY_HOURS_def Let_def)
  show ?thesis
    using a b c d e f
    by (simp add: cumulative_long_monday level_check_long_monday no_overlap_long_monday
        room_type_long_monday ConstraintManager_def)
qed

text \<open>
  C5, amended. Whenever \<^verbatim>\<open>check_assignment\<close> returns, it returns the violations of
  every registered hard constraint followed by those of every registered soft constraint.
  A freshly constructed ConstraintManager registers NoOverlapConstraint,
  RoomTypeConstraint and LevelConstraint as hard constraints and no soft constraint, and
  no list it returns contains a \<^verbatim>\<open>max_hours_exceeded\<close> violation. For variables whose
  slots start and end on whole minutes: whenever one level's cumulative class duration on
  some day exceeds \<^verbatim>\<open>MAX_DAILY_HOURS\<close> = 6 hours, \<^verbatim>\<open>LevelRequirementConstraint.check\<close>
  returns, and every list returned by \<^verbatim>\<open>check_assignment\<close> of a manager that has a
  LevelRequirementConstraint among its soft constraints contains, a
  \<^verbatim>\<open>max_hours_exceeded\<close> violation with severity 0.8 that names an assigned variable of
  that level on that day.
\<close>

theorem max_hours_reported_once_registered:
  "(check_assignment cm dm vars = Inr found \<longrightarrow>
      (\<exists>hard soft. run_checks (hard_constraints cm) vars dm = Inr hard
          \<and> run_checks (soft_constraints cm) vars dm = Inr soft \<and> found = hard @ soft))
   \<and> hard_constraints ConstraintManager
       = [NoOverlapConstraint, RoomTypeConstraint, LevelConstraint]
   \<and> soft_constraints ConstraintManager = []
   \<and> (check_assignment ConstraintManager dm vars = Inr found \<longrightarrow> \<not> mentions_max_hours found)
   \<and> (list_all on_whole_minutes vars
        \<and> cumulative_duration l d vars > of_int MAX_DAILY_HOURS \<longrightarrow>
        (\<exists>v. v \<in> set vars \<and> counts_for l d v
           \<and> max_hours_exceeded v d \<in> set (level_requirement_check vars)
           \<and> constraint_type (max_hours_exceeded v d) = ''max_hours_exceeded''
           \<and> severity (max_hours_exceeded v d) = 4 / 5
           \<and> constraint_violation.variables (max_hours_exceeded v d) = [v]))
   \<and> (list_all on_whole_minutes vars
        \<and> cumulative_duration l d vars > of_int MAX_DAILY_HOURS
        \<and> LevelRequirementConstraint \<in> set (soft_constraints cm)
        \<and> check_assignment cm dm vars = Inr found \<longrightarrow>
        (\<exists>v. v \<in> set vars \<and> counts_for l d v
           \<and> max_hours_exceeded v d \<in> set found
           \<and> constraint_type (max_hours_exceeded v d) = ''max_hours_exceeded''
           \<and> severity (max_hours_exceeded v d) = 4 / 5
           \<and> constraint_violation.variables (max_hours_exceeded v d) = [v]))"
proof -
  have p1: "check_assignment cm dm vars = Inr found \<longrightarrow>
      (\<exists>hard soft. run_checks (hard_constraints cm) vars dm = Inr hard
          \<and> run_checks (soft_constraints cm) vars dm = Inr soft \<and> found = hard @ soft)"
    using check_assignment_parts by blast
  have p2: "check_assignment ConstraintManager dm vars = Inr found \<longrightarrow>
      \<not> mentions_max_hours found"
    using default_manager_types[of dm vars found]
    by (auto simp: mentions_max_hours_def list_ex_iff)
  have p3: "list_all on_whole_minutes vars
        \<and> cumulative_duration l d vars > of_int MAX_DAILY_HOURS \<longrightarrow>
        (\<exists>v. v \<in> set vars \<and> counts_for l d v
           \<and> max_hours_exceeded v d \<in> set (level_requirement_check vars))"
    using cap_reported by blast
  have p4: "list_all on_whole_minutes vars
        \<and> cumulative_duration l d vars > of_int MAX_DAILY_HOURS
        \<and> LevelRequirementConstraint \<in> set (soft_constraints cm)
        \<and> check_assignment cm dm vars = Inr found \<longrightarrow>
        (\<exists>v. v \<in> set vars \<and> counts_for l d v \<and> max_hours_exceeded v d \<in> set found)"
  proof (intro impI, elim conjE)
    assume w: "list_all on_whole_minutes vars"
      and c: "cumulative_duration l d vars > of_int MAX_DAILY_HOURS"
      and m: "LevelRequirementConstraint \<in> set (soft_constraints cm)"
      and r: "check_assignment cm dm vars = Inr found"
    from check_assignment_parts[OF r] obtain hard soft where
      s: "run_checks (soft_constraints cm) vars dm = Inr soft" and f: "found = hard @ soft"
      by blast
    from run_checks_soft_only[OF s m] f
    have sub: "set (level_requirement_check vars) \<subseteq> set found" by auto
    from cap_reported[OF w c] obtain v where
      "v \<in> set vars" "counts_for l d v"
      "max_hours_exceeded v d \<in> set (level_requirement_check vars)" by blast
    with sub show "\<exists>v. v \<in> set vars \<and> counts_for l d v \<and> max_hours_exceeded v d \<in> set found"
      by blast
  qed
  have q: "\<And>v. constraint_type (max_hours_exceeded v d) = ''max_hours_exceeded''
           \<and> severity (max_hours_exceeded v d) = 4 / 5
           \<and> constraint_violation.variables (max_hours_exceeded v d) = [v]"
    by (simp add: max_hours_exceeded_def)
  show ?thesis
    using p1 p2 p3 p4 q by (simp add: ConstraintManager_def)
qed

theorem max_hours_reported_once_registered_witness:
  "list_all on_whole_minutes long_monday
   \<and> cumulative_duration 1 ''Monday'' long_monday > of_int MAX_DAILY_HOURS
   \<and> LevelRequirementConstraint \<in> set (soft_constraints lenient_manager)
   \<and> check_assignment lenient_manager small_domain long_monday
       = Inr (level_requirement_check long_monday)
   \<and> check_assignment ConstraintManager small_domain [late_comer] = Inr []
   \<and> \<not> mentions_max_hours []
   \<and> (\<exists>v. v \<in> set long_monday \<and> counts_for 1 ''Monday'' v
         \<and> max_hours_exceeded v ''Monday'' \<in> set (level_requirement_check long_monday)
         \<and> severity (max_hours_exceeded v ''Monday'') = 4 / 5)"
proof -
  have w: "list_all on_whole_minutes long_monday"
    by (simp add: long_monday_def on_whole_minutes_def whole_minutes_def assign_def
        monday_slot_def mk_time_def)
  have c: "cumulative_duration 1 ''Monday'' long_monday > of_int MAX_DAILY_HOURS"
    by (simp add: cumulative_long_monday MAX_DAILY_HOURS_def)
  have m: "LevelRequirementConstraint \<in> set (soft_constraints lenient_manager)"
    by (simp add: lenient_manager_def)
  have r: "check_assignment lenient_manager small_domain long_monday
             = Inr (level_requirement_check long_monday)"
    by (simp add: check_assignment_def lenient_manager_def no_overlap_long_monday
        room_type_long_monday)
  have f: "check_assignment ConstraintManager small_domain [late_comer] = Inr []"
    by (simp add: check_assignment_def ConstraintManager_def level_check_def late_comer_def
        set_domain_def Variable_def conflicts_with_def room_type_check_def
        room_type_check_one_def is_assigned_def truthy_slot_def)
  from max_hours_reported_once_registered
         [of lenient_manager small_domain long_monday "level_requirement_check long_monday"
             1 "''Monday''"] w c m r
  have "\<exists>v. v \<in> set long_monday \<and> counts_for 1 ''Monday'' v
         \<and> max_hours_exceeded v ''Monday'' \<in> set (level_requirement_check long_monday)
         \<and> severity (max_hours_exceeded v ''Monday'') = 4 / 5"
    by blast
  moreover from max_hours_reported_once_registered
         [of ConstraintManager small_domain "[late_comer]" "[]" 1 "''Monday''"] f
  have "\<not> mentions_max_hours []" by blast
  ultimately show ?thesis using w c m r f by blast
qed

section \<open>The solver\<close>

lemma dom_leaf [simp]:
  "solver_domain (this (snd (backtrack_leaf env st))) = solver_domain (this st)"
  by (simp add: backtrack_leaf_def Let_def split: option.splits)

lemma dom_tick [simp]: "solver_domain (this (tick st)) = solver_domain (this st)"
  by (simp add: tick_def)

lemma dom_put_var [simp]: "solver_domain (this (put_var i v st)) = solver_domain (this st)"
  by (simp add: put_var_def)

lemma dom_count [simp]: "solver_domain (this (count_assignment st)) = solver_domain (this st)"
  by (simp add: count_assignment_def)

lemma dom_try_assign [simp]: "solver_domain (this (try_assign i v st)) = solver_domain (this st)"
  by (simp add: try_assign_def split: prod.splits)

lemma dom_look_ahead [simp]:
  "solver_domain (this (snd (look_ahead i st))) = solver_domain (this st)"
  by (simp add: look_ahead_def split: prod.splits)

lemma dom_attempt [simp]:
  "solver_domain (this (snd (attempt i v st))) = solver_domain (this st)"
  by (simp add: attempt_def Let_def split: sum.splits)

lemma dom_undo [simp]: "solver_domain (this (snd (undo i st))) = solver_domain (this st)"
  by (simp add: undo_def Let_def)

lemma search_keeps_domain:
  "solver_domain (this (snd (backtrack env index st0))) = solver_domain (this st0)"
  "solver_domain (this (snd (try_values env index vs st))) = solver_domain (this st)"
proof (induct env index st0 and env index vs st rule: backtrack_try_values.induct)
  case (1 env index st0)
  show ?case
    using 1
    by (auto simp: backtrack.simps[of env index st0] Let_def split: sum.splits)
next
  case (2 env index st)
  then show ?case by (simp add: try_values.simps(1))
next
  case (3 env index v rest st)
  show ?case
    using 3
    by (auto simp: try_values.simps(2)[of env index v rest st] Let_def)
qed

text \<open>
  C7. Whatever \<^verbatim>\<open>solve\<close> returns, and also when it raises, the Domain of the solver is
  the one it started with: in particular every room and every instructor has the
  \<^verbatim>\<open>available_times\<close> it had before the call.
\<close>

theorem solve_leaves_domain_untouched:
  "solver_domain (fst (snd (solve clk slf vs max_sol tmo))) = solver_domain slf
   \<and> room_times (solver_domain (fst (snd (solve clk slf vs max_sol tmo)))) rid
       = room_times (solver_domain slf) rid
   \<and> instructor_times (solver_domain (fst (snd (solve clk slf vs max_sol tmo)))) iid
       = instructor_times (solver_domain slf) iid"
proof -
  have "solver_domain (fst (snd (solve clk slf vs max_sol tmo))) = solver_domain slf"
    using search_keeps_domain(1)
      [of "\<lparr>clock = clk, solve_start = clk 0, timeout = tmo, max_solutions = max_sol\<rparr>" 0
          "\<lparr>this = slf, variables = vs, solutions = [], ticks = 1\<rparr>"]
    by (simp add: solve_def Let_def split: sum.splits)
  then show ?thesis by simp
qed

text \<open>
  C3. CSC111 holds Monday 09:00 to 10:00 in R101 with INS1, and CSC112 of the same level
  has only that triple left. The forward check over CSC112 does not return: it assigns the
  triple, \<^verbatim>\<open>check_assignment([variable])\<close> raises TypeError in LevelConstraint, and
  CSC112 stays assigned. A future variable that is assigned and has no candidates makes
  the check return false at once, still assigned. And with a manager that has no
  LevelConstraint the check returns true for CSC112, whose only triple is in conflict with
  CSC111: the variables already assigned are not looked at.
\<close>

theorem forward_check_raises_on_probe:
  "forward_check small_solver [late_comer]
     = (Inl (TypeError ''unhashable type: 'TimeSlot' ''),
        [assign late_comer monday_9_10 ''R101'' ''INS1''])
   \<and> is_assigned (assign late_comer monday_9_10 ''R101'' ''INS1'')
   \<and> forward_check small_solver [held_over] = (Inr False, [held_over])
   \<and> is_assigned held_over
   \<and> forward_check lenient_solver [late_comer] = (Inr True, [late_comer])
   \<and> is_assigned taken
   \<and> check_assignment lenient_manager small_domain
        [taken, assign late_comer monday_9_10 ''R101'' ''INS1'']
       = Inr [resource_overlap taken (assign late_comer monday_9_10 ''R101'' ''INS1'')]"
proof -
  have a: "forward_check small_solver [late_comer]
     = (Inl (TypeError ''unhashable type: 'TimeSlot' ''),
        [assign late_comer monday_9_10 ''R101'' ''INS1''])"
    by (simp add: domain_triples_def late_comer_def set_domain_def Variable_def
        small_solver_def Solver_def check_assignment_def ConstraintManager_def level_check_def
        slot_set_add_raises assign_def is_assigned_def truthy_slot_def truthy_str_def)
  have b: "is_assigned (assign late_comer monday_9_10 ''R101'' ''INS1'')"
    by (simp add: assign_def is_assigned_def truthy_slot_def truthy_str_def)
  have c: "forward_check small_solver [held_over] = (Inr False, [held_over])"
    by (simp add: held_over_def assign_def Variable_def)
  have d: "is_assigned held_over"
    by (simp add: held_over_def assign_def is_assigned_def truthy_slot_def truthy_str_def)
  have one: "check_assignment lenient_manager small_domain
               [assign late_comer monday_9_10 ''R101'' ''INS1''] = Inr []"
    by (simp add: check_assignment_def lenient_manager_def late_comer_def set_domain_def
        room_type_check_def room_type_check_one_def level_requirement_check_def assign_def
        Variable_def is_assigned_def truthy_slot_def truthy_str_def small_domain_def
        RoomAvailability_def lecture_30_def slot_hours_def monday_9_10_def mk_time_def
        MAX_DAILY_HOURS_def Let_def)
  have e: "forward_check lenient_solver [late_comer] = (Inr True, [late_comer])"
    using one
    by (simp add: domain_triples_def lenient_solver_def Solver_def)
       (simp add: late_comer_def set_domain_def Variable_def assign_def unassign_def)
  have f: "is_assigned taken"
    by (simp add: taken_def assign_def is_assigned_def truthy_slot_def truthy_str_def)
  have g: "check_assignment lenient_manager small_domain
        [taken, assign late_comer monday_9_10 ''R101'' ''INS1'']
       = Inr [resource_overlap taken (assign late_comer monday_9_10 ''R101'' ''INS1'')]"
    by (simp add: check_assignment_def lenient_manager_def late_comer_def set_domain_def
        room_type_check_def room_type_check_one_def level_requirement_check_def taken_def
        assign_def Variable_def is_assigned_def truthy_slot_def truthy_str_def
        conflicts_with_def overlaps_def small_domain_def RoomAvailability_def lecture_30_def
        slot_hours_def monday_9_10_def mk_time_def time_lt_def time_key_def
        MAX_DAILY_HOURS_def Let_def)
  show ?thesis using a b c d e f g by simp
qed

text \<open>
  C4. With \<^verbatim>\<open>max_solutions = 2\<close>, no solution collected yet and no best metrics, the
  first full assignment is recorded as a solution and \<^verbatim>\<open>backtrack\<close> returns true, which
  ends the search with one solution of the two asked for.
\<close>

theorem leaf_stops_before_max_solutions:
  "fst (backtrack_leaf two_wanted first_leaf) = True
   \<and> solutions (snd (backtrack_leaf two_wanted first_leaf)) = [[clone taken]]
   \<and> \<not> int (length (solutions (snd (backtrack_leaf two_wanted first_leaf))))
          \<ge> max_solutions two_wanted"
  by (simp add: backtrack_leaf_def two_wanted_def first_leaf_def small_solver_def Solver_def
      Let_def)

section \<open>The level scheduler\<close>









section \<open>The timetable generator\<close>

text \<open>
  Every attempt of \<^verbatim>\<open>schedule_level\<close> starts by clearing the bookings, so its result
  depends on the scheduler object only through the Domain, and the Domain is the same
  after the call.
\<close>

lemma reset_same: "ls_domain a = ls_domain b \<Longrightarrow> reset_resources a = reset_resources b"
  by (cases a, cases b) (simp add: reset_resources_def)

lemma attempts_same:
  "ls_domain a = ls_domain b \<Longrightarrow> fst (attempts n a vs) = fst (attempts n b vs)"
  by (cases n) (auto simp: reset_same[of a b])

lemma schedule_level_same:
  "ls_domain a = ls_domain b \<Longrightarrow>
     fst (schedule_level se a n vs ma) = fst (schedule_level se b n vs ma)"
proof -
  assume d: "ls_domain a = ls_domain b"
  obtain r s ws where x: "attempts (nat ma) a (sort_by_constraints vs) = (r, s, ws)"
    by (cases "attempts (nat ma) a (sort_by_constraints vs)")
  obtain r' s' ws' where y: "attempts (nat ma) b (sort_by_constraints vs) = (r', s', ws')"
    by (cases "attempts (nat ma) b (sort_by_constraints vs)")
  from attempts_same[OF d, of "nat ma" "sort_by_constraints vs"] x y have "r = r'" by simp
  then show ?thesis using x y
    by (auto simp: schedule_level_def split: sum.splits option.splits)
qed

lemma book_domain: "book sch v = Inr sch' \<Longrightarrow> ls_domain sch' = ls_domain sch"
  by (auto simp: book_def split: prod.splits sum.splits)

lemma schedule_variable_domain:
  "ls_domain (fst (snd (schedule_variable sch var))) = ls_domain sch"
  by (auto simp: schedule_variable_def split: sum.splits option.splits dest: book_domain)

lemma schedule_each_domain: "ls_domain (fst (snd (schedule_each sch vs))) = ls_domain sch"
proof (induction vs arbitrary: sch)
  case Nil
  then show ?case by simp
next
  case (Cons a vs)
  obtain r s w where sv: "schedule_variable sch a = (r, s, w)"
    by (cases "schedule_variable sch a")
  then have d: "ls_domain s = ls_domain sch" using schedule_variable_domain[of sch a] by simp
  obtain r' s' ws where se: "schedule_each s vs = (r', s', ws)"
    by (cases "schedule_each s vs")
  have "ls_domain s' = ls_domain s" using Cons.IH[of s] se by simp
  then show ?case using sv se d by (auto split: sum.splits bool.splits)
qed

lemma attempts_domain: "ls_domain (fst (snd (attempts n sch vs))) = ls_domain sch"
proof (induction n arbitrary: sch vs)
  case 0
  then show ?case by simp
next
  case (Suc n)
  obtain r s ws where se: "schedule_each (reset_resources sch) vs = (r, s, ws)"
    by (cases "schedule_each (reset_resources sch) vs")
  then have "ls_domain s = ls_domain sch"
    using schedule_each_domain[of "reset_resources sch" vs] by (simp add: reset_resources_def)
  then show ?case using se Suc.IH[of s "map unassign ws"]
    by (auto split: sum.splits bool.splits)
qed

lemma schedule_level_domain: "ls_domain (snd (schedule_level se sch n vs ma)) = ls_domain sch"
proof -
  obtain r s ws where x: "attempts (nat ma) sch (sort_by_constraints vs) = (r, s, ws)"
    by (cases "attempts (nat ma) sch (sort_by_constraints vs)")
  then have "ls_domain s = ls_domain sch"
    using attempts_domain[of "nat ma" sch "sort_by_constraints vs"] by simp
  then show ?thesis using x by (auto simp: schedule_level_def split: sum.splits option.splits)
qed

lemma schedule_level_failure_has_reason:
  "\<not> sr_success (fst (schedule_level se sch n vs ma)) \<Longrightarrow>
     \<exists>msg. sr_error (fst (schedule_level se sch n vs ma)) = Some msg"
  by (auto simp: schedule_level_def split: prod.splits sum.splits option.splits)

lemma levels_prefix:
  assumes "list_all (level_scheduled env dm sch ma) pre" "ls_domain sch' = ls_domain sch"
  shows "\<exists>sch'' tt' st'. ls_domain sch'' = ls_domain sch
           \<and> generate_levels env dm ma sch' (pre @ rest) tt st
               = generate_levels env dm ma sch'' rest tt' st'"
  using assms
proof (induction pre arbitrary: sch' tt st)
  case Nil
  then show ?case by auto
next
  case (Cons a pre)
  obtain lvl courses where a: "a = (lvl, courses)" by (cases a)
  from Cons.prems(1) obtain n vs where n: "level_number env lvl = Inr n"
    and vs: "create_variables env dm n courses = Inr vs"
    and ok: "sr_success (fst (schedule_level (str_exception env) sch n vs ma))"
    by (auto simp: a level_scheduled_def split: sum.splits)
  have ok': "sr_success (fst (schedule_level (str_exception env) sch' n vs ma))"
    using ok schedule_level_same[OF Cons.prems(2)] by simp
  have d: "ls_domain (snd (schedule_level (str_exception env) sch' n vs ma)) = ls_domain sch"
    using schedule_level_domain Cons.prems(2) by simp
  from Cons.prems(1) have p: "list_all (level_scheduled env dm sch ma) pre" by simp
  from Cons.IH[OF p d] show ?case
    using n vs ok' by (simp add: a Let_def)
qed

lemma generate_reaches_level:
  assumes "reaches env dm sch ma pre (lvl, courses) rest"
  shows "\<exists>sch' tt st. ls_domain sch' = ls_domain sch
           \<and> generate_body env dm sch ma
               = generate_levels env dm ma sch' ((lvl, courses) # rest) tt st"
proof -
  from assms have l: "load_levels env = Inr (pre @ (lvl, courses) # rest)"
    and v: "validate env (pre @ (lvl, courses) # rest) = Inr []"
    and p: "list_all (level_scheduled env dm sch ma) pre"
    by (simp_all add: reaches_def)
  from levels_prefix[OF p, of sch "(lvl, courses) # rest" "[]"
          "\<lparr>gs_attempts = 0, gs_total_variables = 0, gs_total_time = 0\<rparr>"] l v
  show ?thesis by (auto simp: generate_body_def)
qed

lemma raise_at_level_number:
  assumes "reaches env dm sch ma pre (lvl, courses) rest" "level_number env lvl = Inl e"
  shows "generate env dm sch ma
           = failed_generation (''Generation failed: '' @ str_exception env e)"
proof -
  from generate_reaches_level[OF assms(1)] obtain sch' tt st where
    "generate_body env dm sch ma = generate_levels env dm ma sch' ((lvl, courses) # rest) tt st"
    by blast
  then show ?thesis using assms(2) by (simp add: generate_def failed_generation_def)
qed

lemma raise_at_create_variables:
  assumes "reaches env dm sch ma pre (lvl, courses) rest" "level_number env lvl = Inr n"
      and "create_variables env dm n courses = Inl e"
  shows "generate env dm sch ma
           = failed_generation (''Generation failed: '' @ str_exception env e)"
proof -
  from generate_reaches_level[OF assms(1)] obtain sch' tt st where
    "generate_body env dm sch ma = generate_levels env dm ma sch' ((lvl, courses) # rest) tt st"
    by blast
  then show ?thesis using assms(2,3) by (simp add: generate_def failed_generation_def)
qed

lemma failure_at_level:
  assumes "reaches env dm sch ma pre (lvl, courses) rest" "level_number env lvl = Inr n"
      and "create_variables env dm n courses = Inr vs"
      and "\<not> sr_success (fst (schedule_level (str_exception env) sch n vs ma))"
  shows "\<exists>msg. sr_error (fst (schedule_level (str_exception env) sch n vs ma)) = Some msg
           \<and> generate env dm sch ma
               = failed_generation (''Failed to schedule level '' @ lvl @ '': '' @ msg)"
proof -
  from generate_reaches_level[OF assms(1)] obtain sch' tt st where
    d: "ls_domain sch' = ls_domain sch" and
    g: "generate_body env dm sch ma
          = generate_levels env dm ma sch' ((lvl, courses) # rest) tt st"
    by blast
  have same: "fst (schedule_level (str_exception env) sch' n vs ma)
                = fst (schedule_level (str_exception env) sch n vs ma)"
    using schedule_level_same[OF d] by simp
  from schedule_level_failure_has_reason[OF assms(4)] obtain msg where
    m: "sr_error (fst (schedule_level (str_exception env) sch n vs ma)) = Some msg" by blast
  have "generate_body env dm sch ma
          = Inr (level_failure lvl (fst (schedule_level (str_exception env) sch n vs ma)))"
    using g assms(2,3,4) same by (simp add: Let_def)
  then have "generate env dm sch ma
               = failed_generation (''Failed to schedule level '' @ lvl @ '': '' @ msg)"
    using m by (simp add: generate_def level_failure_def failed_generation_def)
  with m show ?thesis by blast
qed

text \<open>
  C8. \<^verbatim>\<open>generate\<close> returns a result value in every case. When the levels file cannot be
  loaded or the validator raises, the result is a failure that carries the text of the
  exception; when the validator reports errors, it is a failure that carries them. When
  the loop reaches a level, so that every level before it was scheduled, and the number
  of the level cannot be read or creating its variables raises, the result is again a
  failure with the text of the exception; and when \<^verbatim>\<open>schedule_level\<close> fails for that
  level, the result is a failure whose error names the level and carries the error of the
  scheduling result, whatever levels come after it.
\<close>

theorem generate_returns_failures_as_values:
  "(load_levels env = Inl e \<longrightarrow>
      generate env dm sch ma
        = failed_generation (''Generation failed: '' @ str_exception env e))
   \<and> (load_levels env = Inr lvls \<and> validate env lvls = Inl e \<longrightarrow>
      generate env dm sch ma
        = failed_generation (''Generation failed: '' @ str_exception env e))
   \<and> (load_levels env = Inr lvls \<and> validate env lvls = Inr errs \<and> errs \<noteq> [] \<longrightarrow>
      generate env dm sch ma
        = failed_generation (''Level validation failed: '' @ repr_list env errs))
   \<and> (reaches env dm sch ma pre (lvl, courses) rest \<and> level_number env lvl = Inl e \<longrightarrow>
      generate env dm sch ma
        = failed_generation (''Generation failed: '' @ str_exception env e))
   \<and> (reaches env dm sch ma pre (lvl, courses) rest \<and> level_number env lvl = Inr n
        \<and> create_variables env dm n courses = Inl e \<longrightarrow>
      generate env dm sch ma
        = failed_generation (''Generation failed: '' @ str_exception env e))
   \<and> (reaches env dm sch ma pre (lvl, courses) rest \<and> level_number env lvl = Inr n
        \<and> create_variables env dm n courses = Inr vs
        \<and> \<not> sr_success (fst (schedule_level (str_exception env) sch n vs ma)) \<longrightarrow>
      (\<exists>msg. sr_error (fst (schedule_level (str_exception env) sch n vs ma)) = Some msg
         \<and> generate env dm sch ma
             = failed_generation (''Failed to schedule level '' @ lvl @ '': '' @ msg)))
   \<and> \<not> gr_success (failed_generation msg')
   \<and> gr_error (failed_generation msg') = Some msg'"
proof -
  have a: "load_levels env = Inl e \<longrightarrow>
      generate env dm sch ma
        = failed_generation (''Generation failed: '' @ str_exception env e)"
    by (simp add: generate_def generate_body_def failed_generation_def)
  have b: "load_levels env = Inr lvls \<and> validate env lvls = Inl e \<longrightarrow>
      generate env dm sch ma
        = failed_generation (''Generation failed: '' @ str_exception env e)"
    by (simp add: generate_def generate_body_def failed_generation_def)
  have c: "load_levels env = Inr lvls \<and> validate env lvls = Inr errs \<and> errs \<noteq> [] \<longrightarrow>
      generate env dm sch ma
        = failed_generation (''Level validation failed: '' @ repr_list env errs)"
    by (simp add: generate_def generate_body_def failed_generation_def)
  have d: "reaches env dm sch ma pre (lvl, courses) rest \<and> level_number env lvl = Inl e \<longrightarrow>
      generate env dm sch ma
        = failed_generation (''Generation failed: '' @ str_exception env e)"
    using raise_at_level_number by blast
  have f: "reaches env dm sch ma pre (lvl, courses) rest \<and> level_number env lvl = Inr n
        \<and> create_variables env dm n courses = Inl e \<longrightarrow>
      generate env dm sch ma
        = failed_generation (''Generation failed: '' @ str_exception env e)"
    using raise_at_create_variables by blast
  have g: "reaches env dm sch ma pre (lvl, courses) rest \<and> level_number env lvl = Inr n
        \<and> create_variables env dm n courses = Inr vs
        \<and> \<not> sr_success (fst (schedule_level (str_exception env) sch n vs ma)) \<longrightarrow>
      (\<exists>msg. sr_error (fst (schedule_level (str_exception env) sch n vs ma)) = Some msg
         \<and> generate env dm sch ma
             = failed_generation (''Failed to schedule level '' @ lvl @ '': '' @ msg))"
    using failure_at_level by blast
  have h: "\<not> gr_success (failed_generation msg')
           \<and> gr_error (failed_generation msg') = Some msg'"
    by (simp add: failed_generation_def)
  from a b c d f g h show ?thesis by blast
qed

lemma empty_level_succeeds: "sr_success (fst (schedule_level se sch n [] 3))"
  by (simp add: schedule_level_def sort_by_constraints_def eval_nat_numeral)

lemma first_level_number: "level_number quiet_env ''level_1'' = Inr 1"
  by (simp add: level_number_def quiet_env_def)

lemma second_level_number: "level_number quiet_env ''level_2'' = Inr 2"
  by (simp add: level_number_def quiet_env_def)

lemma first_level_variables: "create_variables quiet_env dm 1 [CourseId ''CSC000''] = Inr []"
  by (simp add: quiet_env_def)

lemma first_level_scheduled:
  "level_scheduled quiet_env dm sch 3 (''level_1'', [CourseId ''CSC000''])"
  by (simp add: level_scheduled_def first_level_number first_level_variables
      empty_level_succeeds del: create_variables.simps)

lemma second_level_variables:
  "create_variables quiet_env idle_domain 2 [CourseId ''CSC111'']
     = Inr [set_domain (Variable ''CSC111'' 2 lecture_30) [] [''R101''] [''INS1'']]"
  by (simp add: quiet_env_def get_available_values_def idle_domain_def slot_set_def
      suitable_room_def RoomAvailability_def lecture_30_def)

lemma second_level_unschedulable:
  assumes "ls_domain sch = idle_domain"
  shows "schedule_variable (reset_resources sch)
      (set_domain (Variable ''CSC111'' 2 lecture_30) [] [''R101''] [''INS1''])
     = (Inr False, reset_resources sch,
        set_domain (Variable ''CSC111'' 2 lecture_30) [] [''R101''] [''INS1''])"
  using assms
  by (simp add: schedule_variable_def slots_minus_def slot_set_def get_level_conflicts_def
      set_domain_def Variable_def reset_resources_def idle_domain_def RoomAvailability_def
      InstructorAvailability_def lecture_30_def)

lemma unassign_unassigned:
  "map unassign [set_domain (Variable ''CSC111'' 2 lecture_30) [] [''R101''] [''INS1'']]
     = [set_domain (Variable ''CSC111'' 2 lecture_30) [] [''R101''] [''INS1'']]"
  by (simp add: unassign_def set_domain_def Variable_def)

lemma second_level_attempts:
  "ls_domain sch = idle_domain \<Longrightarrow>
     fst (attempts n sch [set_domain (Variable ''CSC111'' 2 lecture_30) [] [''R101''] [''INS1'']])
       = Inr None"
proof (induction n arbitrary: sch)
  case 0
  then show ?case by simp
next
  case (Suc n)
  have "ls_domain (reset_resources sch) = idle_domain"
    using Suc.prems by (simp add: reset_resources_def)
  from Suc.IH[OF this] show ?case
    using second_level_unschedulable[OF Suc.prems] unassign_unassigned by simp
qed

lemma second_level_fails:
  "fst (schedule_level error_text (LevelScheduler idle_domain) 2
          [set_domain (Variable ''CSC111'' 2 lecture_30) [] [''R101''] [''INS1'']] 3)
     = \<lparr>sr_success = False, sr_variables = None, sr_metrics = None,
        sr_error = Some ''Failed to schedule level 2 after 3 attempts''\<rparr>"
proof -
  have d: "ls_domain (LevelScheduler idle_domain) = idle_domain"
    by (simp add: LevelScheduler_def)
  have s: "sort_by_constraints
             [set_domain (Variable ''CSC111'' 2 lecture_30) [] [''R101''] [''INS1'']]
           = [set_domain (Variable ''CSC111'' 2 lecture_30) [] [''R101''] [''INS1'']]"
    by (simp add: sort_by_constraints_def)
  obtain r sch' ws where a:
    "attempts (nat 3) (LevelScheduler idle_domain)
       [set_domain (Variable ''CSC111'' 2 lecture_30) [] [''R101''] [''INS1'']] = (r, sch', ws)"
    by (cases "attempts (nat 3) (LevelScheduler idle_domain)
       [set_domain (Variable ''CSC111'' 2 lecture_30) [] [''R101''] [''INS1'']]")
  with second_level_attempts[OF d, of "nat 3"] have "r = Inr None" by simp
  then show ?thesis using a s by (simp add: schedule_level_def str_int_def)
qed

lemma second_level_raises:
  "create_variables quiet_env small_domain 2 [CourseId ''CSC111'']
     = Inl (TypeError ''unhashable type: 'TimeSlot' '')"
  by (simp add: quiet_env_def get_available_values_def small_domain_def slot_set_def
      slot_set_add_raises)

theorem generate_returns_failures_as_values_witness:
  "generate broken_env idle_domain (LevelScheduler idle_domain) 3
     = failed_generation ''Generation failed: Format error: Invalid JSON format''
   \<and> generate unchecked_env idle_domain (LevelScheduler idle_domain) 3
     = failed_generation
         ''Generation failed: LevelParser object has no attribute _flatten_courses''
   \<and> generate rejecting_env idle_domain (LevelScheduler idle_domain) 3
     = failed_generation
         ''Level validation failed: Duplicate courses found in level level_1''
   \<and> reaches misnamed_env idle_domain (LevelScheduler idle_domain) 3
       [(''level_1'', [CourseId ''CSC000''])] (''level_x'', [CourseId ''CSC111''])
       [(''level_3'', [CourseId ''CSC211''])]
   \<and> generate misnamed_env idle_domain (LevelScheduler idle_domain) 3
     = failed_generation ''Generation failed: invalid literal for int() with base 10: x''
   \<and> reaches quiet_env small_domain (LevelScheduler small_domain) 3
       [(''level_1'', [CourseId ''CSC000''])] (''level_2'', [CourseId ''CSC111''])
       [(''level_3'', [CourseId ''CSC211''])]
   \<and> generate quiet_env small_domain (LevelScheduler small_domain) 3
     = failed_generation ''Generation failed: unhashable type: 'TimeSlot' ''
   \<and> reaches unbound_env idle_domain (LevelScheduler idle_domain) 3
       [] (''level_1'', [CourseId ''CSC000''])
       [(''level_2'', [CourseId ''CSC111'']), (''level_3'', [CourseId ''CSC211''])]
   \<and> generate unbound_env idle_domain (LevelScheduler idle_domain) 3
     = failed_generation ''Generation failed: name 'sqlite3' is not defined''
   \<and> reaches quiet_env idle_domain (LevelScheduler idle_domain) 3
       [(''level_1'', [CourseId ''CSC000''])] (''level_2'', [CourseId ''CSC111''])
       [(''level_3'', [CourseId ''CSC211''])]
   \<and> \<not> sr_success (fst (schedule_level (str_exception quiet_env) (LevelScheduler idle_domain) 2
          [set_domain (Variable ''CSC111'' 2 lecture_30) [] [''R101''] [''INS1'']] 3))
   \<and> generate quiet_env idle_domain (LevelScheduler idle_domain) 3
     = failed_generation
         ''Failed to schedule level level_2: Failed to schedule level 2 after 3 attempts''"
proof -
  let ?sch = "LevelScheduler idle_domain"
  let ?one = "(''level_1'', [CourseId ''CSC000''])"
  let ?two = "(''level_2'', [CourseId ''CSC111''])"
  let ?three = "(''level_3'', [CourseId ''CSC211''])"
  let ?v = "set_domain (Variable ''CSC111'' 2 lecture_30) [] [''R101''] [''INS1'']"
  have se: "str_exception quiet_env = error_text" by (simp add: quiet_env_def)
  have a: "generate broken_env idle_domain ?sch 3
             = failed_generation ''Generation failed: Format error: Invalid JSON format''"
  proof -
    have "load_levels broken_env = Inl (OtherError ''Format error: Invalid JSON format'')"
      by (simp add: broken_env_def)
    moreover have "str_exception broken_env = error_text"
      by (simp add: broken_env_def quiet_env_def)
    ultimately show ?thesis
      using generate_returns_failures_as_values
        [where env = broken_env and e = "OtherError ''Format error: Invalid JSON format''"
           and dm = idle_domain and sch = ?sch and ma = 3]
      by simp
  qed
  have b: "generate unchecked_env idle_domain ?sch 3
             = failed_generation
                 ''Generation failed: LevelParser object has no attribute _flatten_courses''"
  proof -
    have "load_levels unchecked_env = Inr three_levels"
      by (simp add: unchecked_env_def quiet_env_def)
    moreover have "validate unchecked_env three_levels
        = Inl (OtherError ''LevelParser object has no attribute _flatten_courses'')"
      by (simp add: unchecked_env_def)
    moreover have "str_exception unchecked_env = error_text"
      by (simp add: unchecked_env_def quiet_env_def)
    ultimately show ?thesis
      using generate_returns_failures_as_values
        [where env = unchecked_env and lvls = three_levels
           and e = "OtherError ''LevelParser object has no attribute _flatten_courses''"
           and dm = idle_domain and sch = ?sch and ma = 3]
      by simp
  qed
  have c: "generate rejecting_env idle_domain ?sch 3
             = failed_generation
                 ''Level validation failed: Duplicate courses found in level level_1''"
  proof -
    have "load_levels rejecting_env = Inr three_levels"
      by (simp add: rejecting_env_def quiet_env_def)
    moreover have "validate rejecting_env three_levels
        = Inr [''Duplicate courses found in level level_1'']"
      by (simp add: rejecting_env_def)
    moreover have "repr_list rejecting_env [''Duplicate courses found in level level_1'']
        = ''Duplicate courses found in level level_1''"
      by (simp add: rejecting_env_def quiet_env_def)
    ultimately show ?thesis
      using generate_returns_failures_as_values
        [where env = rejecting_env and lvls = three_levels
           and errs = "[''Duplicate courses found in level level_1'']"
           and dm = idle_domain and sch = ?sch and ma = 3]
      by simp
  qed
  have d1: "reaches misnamed_env idle_domain ?sch 3 [?one] (''level_x'', [CourseId ''CSC111''])
              [?three]"
    by (simp add: reaches_def level_scheduled_def level_number_def misnamed_env_def
        quiet_env_def empty_level_succeeds)
  have d: "generate misnamed_env idle_domain ?sch 3
     = failed_generation ''Generation failed: invalid literal for int() with base 10: x''"
  proof -
    have "level_number misnamed_env ''level_x''
            = Inl (ValueError ''invalid literal for int() with base 10: x'')"
      by (simp add: level_number_def misnamed_env_def quiet_env_def)
    moreover have "str_exception misnamed_env = error_text"
      by (simp add: misnamed_env_def quiet_env_def)
    ultimately show ?thesis
      using d1 generate_returns_failures_as_values
        [where env = misnamed_env and pre = "[?one]" and lvl = "''level_x''"
           and courses = "[CourseId ''CSC111'']" and rest = "[?three]"
           and e = "ValueError ''invalid literal for int() with base 10: x''"
           and dm = idle_domain and sch = ?sch and ma = 3]
      by simp
  qed
  have f1: "reaches quiet_env small_domain (LevelScheduler small_domain) 3 [?one] ?two [?three]"
    using first_level_scheduled[of small_domain "LevelScheduler small_domain"]
    by (simp add: reaches_def) (simp add: quiet_env_def three_levels_def)
  have f: "generate quiet_env small_domain (LevelScheduler small_domain) 3
     = failed_generation ''Generation failed: unhashable type: 'TimeSlot' ''"
    using f1 second_level_number second_level_raises se
      generate_returns_failures_as_values
        [where env = quiet_env and pre = "[?one]" and lvl = "''level_2''"
           and courses = "[CourseId ''CSC111'']" and rest = "[?three]" and n = 2
           and e = "TypeError ''unhashable type: 'TimeSlot' ''"
           and dm = small_domain and sch = "LevelScheduler small_domain" and ma = 3]
    by simp
  have g1: "reaches unbound_env idle_domain ?sch 3 [] ?one [?two, ?three]"
    by (simp add: reaches_def unbound_env_def quiet_env_def three_levels_def)
  have g: "generate unbound_env idle_domain ?sch 3
     = failed_generation ''Generation failed: name 'sqlite3' is not defined''"
  proof -
    have "level_number unbound_env ''level_1'' = Inr 1"
      by (simp add: level_number_def unbound_env_def quiet_env_def)
    moreover have "create_variables unbound_env idle_domain 1 [CourseId ''CSC000'']
        = Inl (NameError ''name 'sqlite3' is not defined'')"
      by (simp add: unbound_env_def)
    moreover have "str_exception unbound_env = error_text"
      by (simp add: unbound_env_def quiet_env_def)
    ultimately show ?thesis
      using g1 generate_returns_failures_as_values
        [where env = unbound_env and pre = "[]" and lvl = "''level_1''"
           and courses = "[CourseId ''CSC000'']" and rest = "[?two, ?three]" and n = 1
           and e = "NameError ''name 'sqlite3' is not defined''"
           and dm = idle_domain and sch = ?sch and ma = 3]
      by simp
  qed
  have h1: "reaches quiet_env idle_domain ?sch 3 [?one] ?two [?three]"
    using first_level_scheduled[of idle_domain ?sch]
    by (simp add: reaches_def) (simp add: quiet_env_def three_levels_def)
  have h2: "\<not> sr_success (fst (schedule_level (str_exception quiet_env) ?sch 2 [?v] 3))"
    by (simp add: se second_level_fails)
  have h: "generate quiet_env idle_domain ?sch 3
     = failed_generation
         ''Failed to schedule level level_2: Failed to schedule level 2 after 3 attempts''"
    using h1 h2 second_level_number second_level_variables
      generate_returns_failures_as_values
        [where env = quiet_env and pre = "[?one]" and lvl = "''level_2''"
           and courses = "[CourseId ''CSC111'']" and rest = "[?three]" and n = 2
           and vs = "[?v]" and dm = idle_domain and sch = ?sch and ma = 3]
    by (simp add: se second_level_fails)
  show ?thesis using a b c d1 d f1 f g1 g h1 h2 h by simp
qed

end
